theory Spec2Isabelle
  imports Complex_Main
begin

section \<open>Domain model\<close>

text \<open>
  The dashboard script \<^verbatim>\<open>frontend/script.js\<close> keeps its state in module-level variables
  and in the page. JavaScript numbers are idealised as real numbers (rounding of IEEE
  doubles is not modelled); the non-finite results of a division by zero and the value
  \<^verbatim>\<open>undefined\<close> of a missing field are kept as values of their own.
\<close>

datatype jsval = Num real | NaN | PosInfinity | NegInfinity | Undefined

text \<open>The objects of the remote service, as the script reads them.\<close>

record company =
  company_symbol :: string
  company_name :: string
  company_sector :: string

record stock_point =
  point_date :: string
  point_close :: real
  moving_avg_7 :: "real option"
  daily_return :: "real option"

text \<open>
  A decoded summary. Every field may be absent; an error object of the service
  (or any other JSON value without a \<^verbatim>\<open>symbol\<close>) has \<open>summary_symbol = None\<close>.
\<close>

record stock_summary =
  summary_symbol :: "string option"
  current_price :: "real option"
  summary_daily_return :: "real option"
  week52_high :: "real option"
  week52_low :: "real option"
  average_close :: "real option"
  volatility :: "real option"

record comparison =
  stocks :: "string \<times> string"
  correlation :: real
  performance :: "(string \<times> real) list"
  period_days :: int

subsection \<open>Network results\<close>

text \<open>
  \<^verbatim>\<open>fetch\<close> rejects only when the request itself fails; a response of any status
  resolves, and \<^verbatim>\<open>response.json()\<close> rejects when the body is not JSON.
\<close>

datatype 'a body = NotJson | Json 'a

datatype 'a fetched = NetworkError | Response nat "'a body"

datatype series_json = SeriesArray "stock_point list" | SeriesOther

datatype companies_json = CompaniesArray "company list" | CompaniesOther

datatype comparison_json = ComparisonObject comparison | ComparisonOther

datatype js_error = TypeError | SyntaxError | FetchRejected

datatype days = PeriodValue string | PeriodDays int

datatype request =
    GetRoot
  | GetCompanies
  | GetData string days
  | GetSummary string
  | GetTopGainers
  | GetTopLosers
  | GetCompare string string string

subsection \<open>Charts and page elements\<close>

datatype canvas = PriceCanvas | ReturnsCanvas | ComparisonCanvas

datatype chart_type = Line | Bar

datatype label = LocaleDate string

record chart =
  chart_canvas :: canvas
  chart_kind :: chart_type
  chart_labels :: "label list"
  chart_datasets :: "(string \<times> jsval list) list"

datatype display = DisplayUnset | DisplayBlock | DisplayNone

record company_item =
  dataset_symbol :: string
  item_name :: string
  item_symbol :: string
  item_sector :: string
  item_display :: display
  item_active :: bool

datatype companies_panel = CompanyItems "company_item list" | CompaniesFailed

datatype info_panel = InfoInitial | StockInfo stock_summary | LoadFailed

datatype metric = Dash | Rupees real | Percentage real

record metrics_panel =
  weekHigh :: metric
  weekLow :: metric
  avgClose :: metric
  volatilityScore :: metric

text \<open>A suspended \<^verbatim>\<open>async\<close> body, waiting for the responses of the requests it issued.\<close>

datatype task =
    LoadCompaniesTask
  | LoadStockDataTask string string
  | CompareStocksTask string string string
  | ComparisonChartTask comparison

datatype settlement =
    CompaniesSettled "companies_json fetched"
  | StockDataSettled "series_json fetched" "stock_summary fetched"
  | CompareSettled "comparison_json fetched"
  | ComparisonDataSettled "series_json fetched" "series_json fetched"

record dashboard =
  currentStock :: "string option"
  priceChart :: "nat option"
  returnsChart :: "nat option"
  comparisonChart :: "nat option"
  companiesList :: companies_panel
  searchCompany :: string
  timePeriod :: string
  compareStock :: string
  compareOptions :: "(string \<times> string) list"
  selectedStockInfo :: info_panel
  metrics :: metrics_panel
  totalCompanies :: nat
  totalSectors :: nat
  comparisonSection :: display
  correlationValue :: "real option"
  perfDifference :: "jsval option"
  live_charts :: "(nat \<times> chart) list"
  next_chart :: nat
  requests :: "request list"
  pending :: "task list"
  alerts :: "string list"
  console :: "string list"

text \<open>
  The page before \<^verbatim>\<open>DOMContentLoaded\<close>; the markup is not part of the script, so the
  value the period selector starts with is a parameter.
\<close>

definition initial :: "string \<Rightarrow> dashboard" where
  "initial period =
     \<lparr> currentStock = None, priceChart = None, returnsChart = None, comparisonChart = None,
       companiesList = CompanyItems [], searchCompany = [], timePeriod = period,
       compareStock = [], compareOptions = [], selectedStockInfo = InfoInitial,
       metrics = \<lparr> weekHigh = Dash, weekLow = Dash, avgClose = Dash, volatilityScore = Dash \<rparr>,
       totalCompanies = 0, totalSectors = 0, comparisonSection = DisplayUnset,
       correlationValue = None, perfDifference = None,
       live_charts = [], next_chart = 0, requests = [], pending = [],
       alerts = [], console = [] \<rparr>"

section \<open>Strings\<close>

text \<open>
  \<^verbatim>\<open>toLowerCase\<close> on the ASCII letters; \<open>includes_str\<close> is the substring test
  \<^verbatim>\<open>String.prototype.includes\<close> and
  \<^verbatim>\<open>replace\<close> with a string pattern replaces the first occurrence only.
\<close>

definition lower_char :: "char \<Rightarrow> char" where
  "lower_char c =
     (let n = (of_char c :: nat) in if 65 \<le> n \<and> n \<le> 90 then char_of (n + 32) else c)"

definition toLowerCase :: "string \<Rightarrow> string" where
  "toLowerCase s = map lower_char s"

fun starts_with :: "string \<Rightarrow> string \<Rightarrow> bool" where
  "starts_with s [] = True"
| "starts_with [] (p # ps) = False"
| "starts_with (c # cs) (p # ps) = (c = p \<and> starts_with cs ps)"

fun includes_str :: "string \<Rightarrow> string \<Rightarrow> bool" where
  "includes_str [] t = (t = [])"
| "includes_str (c # cs) t = (starts_with (c # cs) t \<or> includes_str cs t)"

fun replace_first :: "string \<Rightarrow> string \<Rightarrow> string \<Rightarrow> string" where
  "replace_first [] pat rep = (if pat = [] then rep else [])"
| "replace_first (c # cs) pat rep =
     (if starts_with (c # cs) pat then rep @ drop (length pat) (c # cs)
      else c # replace_first cs pat rep)"

definition strip_NS :: "string \<Rightarrow> string" where
  "strip_NS symbol = replace_first symbol ''.NS'' []"

text \<open>A string or \<^verbatim>\<open>null\<close> in a condition: \<^verbatim>\<open>null\<close> and the empty string are falsy.\<close>

definition truthy :: "string option \<Rightarrow> bool" where
  "truthy v = (case v of None \<Rightarrow> False | Some x \<Rightarrow> x \<noteq> [])"

section \<open>Series derivation\<close>

text \<open>The four arrays \<^verbatim>\<open>updateCharts\<close> maps out of the series (lines 201 to 204).\<close>

definition dates :: "stock_point list \<Rightarrow> label list" where
  "dates stockData = map (\<lambda>d. LocaleDate (point_date d)) stockData"

definition prices :: "stock_point list \<Rightarrow> real list" where
  "prices stockData = map point_close stockData"

definition movingAverages :: "stock_point list \<Rightarrow> jsval list" where
  "movingAverages stockData =
     map (\<lambda>d. case moving_avg_7 d of None \<Rightarrow> Undefined | Some m \<Rightarrow> Num m) stockData"

definition dailyReturns :: "stock_point list \<Rightarrow> real list" where
  "dailyReturns stockData =
     map (\<lambda>d. case daily_return d of
                 None \<Rightarrow> 0
               | Some r \<Rightarrow> if r \<noteq> 0 then r * 100 else 0) stockData"

text \<open>Division and multiplication as JavaScript has them at a zero divisor.\<close>

definition js_div :: "real \<Rightarrow> real \<Rightarrow> jsval" where
  "js_div a b =
     (if b \<noteq> 0 then Num (a / b)
      else if a = 0 then NaN else if 0 < a then PosInfinity else NegInfinity)"

definition js_times :: "jsval \<Rightarrow> real \<Rightarrow> jsval" where
  "js_times v k =
     (case v of
        Num x \<Rightarrow> Num (x * k)
      | PosInfinity \<Rightarrow> (if 0 < k then PosInfinity else if k < 0 then NegInfinity else NaN)
      | NegInfinity \<Rightarrow> (if 0 < k then NegInfinity else if k < 0 then PosInfinity else NaN)
      | _ \<Rightarrow> NaN)"

text \<open>
  The rebasing of \<^verbatim>\<open>displayComparison\<close> (lines 412 to 415): the base is the first price;
  on an empty array the base is \<^verbatim>\<open>undefined\<close> and the map has nothing to do.
\<close>

definition normalized :: "real list \<Rightarrow> jsval list" where
  "normalized ps =
     (case ps of
        [] \<Rightarrow> []
      | base # _ \<Rightarrow> map (\<lambda>p. js_times (js_div (p - base) base) 100) ps)"

text \<open>
  The difference of line 384. The mapping is kept as the list of its entries; a symbol
  missing from it reads \<^verbatim>\<open>undefined\<close>, and the difference is then not a number.
\<close>

definition perfDiff :: "comparison \<Rightarrow> jsval" where
  "perfDiff c =
     (case (map_of (performance c) (fst (stocks c)), map_of (performance c) (snd (stocks c))) of
        (Some a, Some b) \<Rightarrow> Num (a - b)
      | _ \<Rightarrow> NaN)"

section \<open>Chart lifecycle\<close>

text \<open>
  The live chart objects of the charting library are kept in \<open>live_charts\<close>, each under
  the identifier it got when constructed. \<^verbatim>\<open>destroy\<close> releases the object; the variable
  that held it keeps the stale handle until it is assigned again. The constructor
  registers the new object and does not look at what its canvas already carries: only
  the script's own \<^verbatim>\<open>destroy\<close> calls take a chart off a canvas.
\<close>

definition destroy :: "nat \<Rightarrow> dashboard \<Rightarrow> dashboard" where
  "destroy h s = s\<lparr> live_charts := filter (\<lambda>e. fst e \<noteq> h) (live_charts s) \<rparr>"

definition new_Chart :: "chart \<Rightarrow> dashboard \<Rightarrow> nat \<times> dashboard" where
  "new_Chart c s =
     (next_chart s,
      s\<lparr> live_charts := live_charts s @ [(next_chart s, c)], next_chart := Suc (next_chart s) \<rparr>)"

definition price_config :: "stock_point list \<Rightarrow> chart" where
  "price_config stockData =
     \<lparr> chart_canvas = PriceCanvas, chart_kind = Line, chart_labels = dates stockData,
       chart_datasets =
         [(''Closing Price'', map Num (prices stockData)),
          (''7-Day Moving Average'', movingAverages stockData)] \<rparr>"

definition returns_config :: "stock_point list \<Rightarrow> chart" where
  "returns_config stockData =
     \<lparr> chart_canvas = ReturnsCanvas, chart_kind = Bar, chart_labels = dates stockData,
       chart_datasets = [(''Daily Return (%)'', map Num (dailyReturns stockData))] \<rparr>"

text \<open>The four statements of \<^verbatim>\<open>updateCharts\<close> that touch chart objects, in order.\<close>

definition destroy_priceChart :: "dashboard \<Rightarrow> dashboard" where
  "destroy_priceChart s = (case priceChart s of None \<Rightarrow> s | Some h \<Rightarrow> destroy h s)"

definition create_priceChart :: "stock_point list \<Rightarrow> dashboard \<Rightarrow> dashboard" where
  "create_priceChart stockData s =
     (case new_Chart (price_config stockData) s of (h, s') \<Rightarrow> s'\<lparr> priceChart := Some h \<rparr>)"

definition destroy_returnsChart :: "dashboard \<Rightarrow> dashboard" where
  "destroy_returnsChart s = (case returnsChart s of None \<Rightarrow> s | Some h \<Rightarrow> destroy h s)"

definition create_returnsChart :: "stock_point list \<Rightarrow> dashboard \<Rightarrow> dashboard" where
  "create_returnsChart stockData s =
     (case new_Chart (returns_config stockData) s of (h, s') \<Rightarrow> s'\<lparr> returnsChart := Some h \<rparr>)"

definition renderCharts :: "stock_point list \<Rightarrow> dashboard \<Rightarrow> dashboard" where
  "renderCharts stockData s =
     create_returnsChart stockData
       (destroy_returnsChart (create_priceChart stockData (destroy_priceChart s)))"

text \<open>
  \<^verbatim>\<open>updateCharts\<close>: the maps of lines 201 to 204 raise a TypeError on a value that is not
  an array, before any chart is touched.
\<close>

definition updateCharts :: "series_json \<Rightarrow> dashboard \<Rightarrow> js_error + dashboard" where
  "updateCharts stockData s =
     (case stockData of
        SeriesOther \<Rightarrow> Inl TypeError
      | SeriesArray points \<Rightarrow> Inr (renderCharts points s))"

text \<open>The states after each of the four statements, for what is observable in between.\<close>

definition renderCharts_instants :: "stock_point list \<Rightarrow> dashboard \<Rightarrow> dashboard list" where
  "renderCharts_instants stockData s =
     (let s1 = destroy_priceChart s;
          s2 = create_priceChart stockData s1;
          s3 = destroy_returnsChart s2;
          s4 = create_returnsChart stockData s3
      in [s1, s2, s3, s4])"

definition live_on :: "canvas \<Rightarrow> dashboard \<Rightarrow> (nat \<times> chart) list" where
  "live_on cv s = filter (\<lambda>e. chart_canvas (snd e) = cv) (live_charts s)"

section \<open>Stock detail\<close>

text \<open>
  \<^verbatim>\<open>updateStockInfo\<close> fills the detail panel from the summary; \<^verbatim>\<open>summary.symbol.split\<close>
  raises a TypeError when the symbol is missing, before the panel is written. The panel
  is kept as the summary it was rendered from.
\<close>

definition updateStockInfo :: "stock_summary \<Rightarrow> dashboard \<Rightarrow> js_error + dashboard" where
  "updateStockInfo summary s =
     (case summary_symbol summary of
        None \<Rightarrow> Inl TypeError
      | Some symbol \<Rightarrow> Inr (s\<lparr> selectedStockInfo := StockInfo summary \<rparr>))"

text \<open>A number in a condition: absent and zero are falsy, and show the dash.\<close>

definition rupees :: "real option \<Rightarrow> metric" where
  "rupees v = (case v of None \<Rightarrow> Dash | Some x \<Rightarrow> if x \<noteq> 0 then Rupees x else Dash)"

definition percentage :: "real option \<Rightarrow> metric" where
  "percentage v = (case v of None \<Rightarrow> Dash | Some x \<Rightarrow> if x \<noteq> 0 then Percentage x else Dash)"

definition updateMetrics :: "stock_summary \<Rightarrow> dashboard \<Rightarrow> dashboard" where
  "updateMetrics summary s =
     s\<lparr> metrics :=
          \<lparr> weekHigh = rupees (week52_high summary),
            weekLow = rupees (week52_low summary),
            avgClose = rupees (average_close summary),
            volatilityScore = percentage (volatility summary) \<rparr> \<rparr>"

text \<open>
  \<^verbatim>\<open>loadStockData\<close> up to its first \<^verbatim>\<open>await\<close>: the symbol is recorded and both requests
  are issued, then the body is suspended on \<^verbatim>\<open>Promise.all\<close>.
\<close>

definition loadStockData :: "string \<Rightarrow> dashboard \<Rightarrow> dashboard" where
  "loadStockData symbol s =
     (let s1 = s\<lparr> currentStock := Some symbol \<rparr>;
          days = timePeriod s1
      in s1\<lparr> requests := requests s1 @ [GetData symbol (PeriodValue days), GetSummary symbol],
             pending := pending s1 @ [LoadStockDataTask symbol days] \<rparr>)"

definition loadStockData_catch :: "dashboard \<Rightarrow> dashboard" where
  "loadStockData_catch s =
     s\<lparr> console := console s @ [''Error loading stock data:''],
        selectedStockInfo := LoadFailed \<rparr>"

text \<open>
  The rest of the body, run when \<^verbatim>\<open>Promise.all\<close> settles: it is fulfilled once both
  requests are, and rejected as soon as one of them is. Every rejection and every
  exception of the three update functions ends in the one \<^verbatim>\<open>catch\<close>, which does not
  look at the other response; so the outcome is a function of the two responses, whenever
  the body resumes.
\<close>

definition loadStockData_settled ::
  "series_json fetched \<Rightarrow> stock_summary fetched \<Rightarrow> dashboard \<Rightarrow> dashboard" where
  "loadStockData_settled dataResponse summaryResponse s =
     (case (dataResponse, summaryResponse) of
        (Response _ dataBody, Response _ summaryBody) \<Rightarrow>
          (case dataBody of
             NotJson \<Rightarrow> loadStockData_catch s
           | Json stockData \<Rightarrow>
               (case summaryBody of
                  NotJson \<Rightarrow> loadStockData_catch s
                | Json stockSummary \<Rightarrow>
                    (case updateStockInfo stockSummary s of
                       Inl _ \<Rightarrow> loadStockData_catch s
                     | Inr s1 \<Rightarrow>
                         (case updateCharts stockData s1 of
                            Inl _ \<Rightarrow> loadStockData_catch s1
                          | Inr s2 \<Rightarrow> updateMetrics stockSummary s2))))
      | _ \<Rightarrow> loadStockData_catch s)"

section \<open>Company list\<close>

text \<open>
  One element per company, as \<^verbatim>\<open>displayCompanies\<close> builds it: the three texts and the
  symbol kept in \<^verbatim>\<open>dataset\<close>. The text content of each part is the field itself, which
  is what the page has when the fields are plain text (\<open>plain_text\<close> below).
\<close>

definition company_element :: "company \<Rightarrow> company_item" where
  "company_element c =
     \<lparr> dataset_symbol = company_symbol c, item_name = company_name c,
       item_symbol = strip_NS (company_symbol c), item_sector = company_sector c,
       item_display = DisplayUnset, item_active = False \<rparr>"

definition company_items :: "dashboard \<Rightarrow> company_item list" where
  "company_items s = (case companiesList s of CompanyItems items \<Rightarrow> items | CompaniesFailed \<Rightarrow> [])"

text \<open>The click listener of the element at position \<open>i\<close> of the list (lines 89 to 100).\<close>

definition click_company :: "nat \<Rightarrow> dashboard \<Rightarrow> dashboard" where
  "click_company i s =
     (let items = company_items s in
      if i < length items then
        (let cleared = map (\<lambda>item. item\<lparr> item_active := False \<rparr>) items;
             marked = cleared[i := (cleared ! i)\<lparr> item_active := True \<rparr>]
         in loadStockData (dataset_symbol (items ! i)) (s\<lparr> companiesList := CompanyItems marked \<rparr>))
      else s)"

definition displayCompanies :: "company list \<Rightarrow> dashboard \<Rightarrow> dashboard" where
  "displayCompanies companies s =
     (let s1 = s\<lparr> companiesList := CompanyItems (map company_element companies) \<rparr>
      in if length companies > 0 then click_company 0 s1 else s1)"

text \<open>
  Replacing the options of the selector leaves its first option, the empty value,
  selected.
\<close>

definition populateCompareDropdown :: "company list \<Rightarrow> dashboard \<Rightarrow> dashboard" where
  "populateCompareDropdown companies s =
     s\<lparr> compareOptions :=
          ([], ''None'') #
          map (\<lambda>c. (company_symbol c,
                     company_name c @ '' ('' @ strip_NS (company_symbol c) @ '')'')) companies,
        compareStock := [] \<rparr>"

definition updateCompanyStats :: "company list \<Rightarrow> dashboard \<Rightarrow> dashboard" where
  "updateCompanyStats companies s =
     s\<lparr> totalCompanies := length companies,
        totalSectors := card (set (map company_sector companies)) \<rparr>"

definition loadCompanies :: "dashboard \<Rightarrow> dashboard" where
  "loadCompanies s =
     s\<lparr> requests := requests s @ [GetCompanies], pending := pending s @ [LoadCompaniesTask] \<rparr>"

definition loadCompanies_catch :: "dashboard \<Rightarrow> dashboard" where
  "loadCompanies_catch s =
     s\<lparr> companiesList := CompaniesFailed, console := console s @ [''Error loading companies:''] \<rparr>"

definition loadCompanies_settled :: "companies_json fetched \<Rightarrow> dashboard \<Rightarrow> dashboard" where
  "loadCompanies_settled response s =
     (case response of
        Response _ (Json (CompaniesArray companies)) \<Rightarrow>
          updateCompanyStats companies
            (populateCompareDropdown companies (displayCompanies companies s))
      | _ \<Rightarrow> loadCompanies_catch s)"

text \<open>\<^verbatim>\<open>filterCompanies\<close>, the input listener of the search box (lines 114 to 129).\<close>

definition filterCompanies :: "dashboard \<Rightarrow> dashboard" where
  "filterCompanies s =
     (let searchTerm = toLowerCase (searchCompany s) in
      case companiesList s of
        CompaniesFailed \<Rightarrow> s
      | CompanyItems items \<Rightarrow>
          s\<lparr> companiesList := CompanyItems
               (map (\<lambda>company.
                  (let name = toLowerCase (item_name company);
                       symbol = toLowerCase (item_symbol company);
                       sector = toLowerCase (item_sector company)
                   in if includes_str name searchTerm \<or> includes_str symbol searchTerm
                         \<or> includes_str sector searchTerm
                      then company\<lparr> item_display := DisplayBlock \<rparr>
                      else company\<lparr> item_display := DisplayNone \<rparr>)) items) \<rparr>)"

section \<open>Comparison\<close>

definition compareStocks :: "dashboard \<Rightarrow> dashboard" where
  "compareStocks s =
     (let symbol2 = compareStock s in
      if \<not> truthy (currentStock s) \<or> symbol2 = []
      then s\<lparr> alerts := alerts s @ [''Please select a stock to compare with''] \<rparr>
      else
        (case currentStock s of
           None \<Rightarrow> s
         | Some symbol1 \<Rightarrow>
             (let days = timePeriod s in
              s\<lparr> requests := requests s @ [GetCompare symbol1 symbol2 days],
                 pending := pending s @ [CompareStocksTask symbol1 symbol2 days] \<rparr>)))"

definition comparison_config :: "comparison \<Rightarrow> stock_point list \<Rightarrow> stock_point list \<Rightarrow> chart" where
  "comparison_config c data1 data2 =
     \<lparr> chart_canvas = ComparisonCanvas, chart_kind = Line, chart_labels = dates data1,
       chart_datasets =
         [(strip_NS (fst (stocks c)), normalized (prices data1)),
          (strip_NS (snd (stocks c)), normalized (prices data2))] \<rparr>"

text \<open>
  \<^verbatim>\<open>displayComparison\<close> up to the point where its two requests are issued. A value
  without a numeric \<^verbatim>\<open>correlation\<close> raises a TypeError at the first statement.
\<close>

definition displayComparison :: "comparison_json \<Rightarrow> dashboard \<Rightarrow> js_error + dashboard" where
  "displayComparison comparison s =
     (case comparison of
        ComparisonOther \<Rightarrow> Inl TypeError
      | ComparisonObject c \<Rightarrow>
          (let s1 = s\<lparr> correlationValue := Some (correlation c) \<rparr>;
               s2 = s1\<lparr> perfDifference := Some (perfDiff c) \<rparr>;
               s3 = s2\<lparr> comparisonSection := DisplayBlock \<rparr>;
               s4 = (case comparisonChart s3 of None \<Rightarrow> s3 | Some h \<Rightarrow> destroy h s3)
           in Inr (s4\<lparr> requests := requests s4 @
                          [GetData (fst (stocks c)) (PeriodDays (period_days c)),
                           GetData (snd (stocks c)) (PeriodDays (period_days c))],
                        pending := pending s4 @ [ComparisonChartTask c] \<rparr>)))"

definition compareStocks_catch :: "dashboard \<Rightarrow> dashboard" where
  "compareStocks_catch s =
     s\<lparr> console := console s @ [''Error comparing stocks:''],
        alerts := alerts s @ [''Failed to compare stocks. Please try again.''] \<rparr>"

definition compareStocks_settled :: "comparison_json fetched \<Rightarrow> dashboard \<Rightarrow> dashboard" where
  "compareStocks_settled response s =
     (case response of
        Response _ (Json comparison) \<Rightarrow>
          (case displayComparison comparison s of
             Inl _ \<Rightarrow> compareStocks_catch s
           | Inr s' \<Rightarrow> s')
      | _ \<Rightarrow> compareStocks_catch s)"

definition comparisonChart_catch :: "dashboard \<Rightarrow> dashboard" where
  "comparisonChart_catch s = s\<lparr> console := console s @ [''Error creating comparison chart:''] \<rparr>"

text \<open>The \<^verbatim>\<open>then\<close> and \<^verbatim>\<open>catch\<close> of the \<^verbatim>\<open>Promise.all\<close> in \<^verbatim>\<open>displayComparison\<close>.\<close>

definition comparisonChart_settled ::
  "comparison \<Rightarrow> series_json fetched \<Rightarrow> series_json fetched \<Rightarrow> dashboard \<Rightarrow> dashboard" where
  "comparisonChart_settled c res1 res2 s =
     (case (res1, res2) of
        (Response _ (Json (SeriesArray data1)), Response _ (Json (SeriesArray data2))) \<Rightarrow>
          (case new_Chart (comparison_config c data1 data2) s of
             (h, s') \<Rightarrow> s'\<lparr> comparisonChart := Some h \<rparr>)
      | _ \<Rightarrow> comparisonChart_catch s)"

section \<open>Events\<close>

text \<open>
  The other loaders issue their request; what they write when it settles (the gainers
  and losers lists, the service status, the time of the last update) is outside the
  modelled part of the page.
\<close>

definition checkAPIStatus :: "dashboard \<Rightarrow> dashboard" where
  "checkAPIStatus s = s\<lparr> requests := requests s @ [GetRoot] \<rparr>"

definition loadTopGainers :: "dashboard \<Rightarrow> dashboard" where
  "loadTopGainers s = s\<lparr> requests := requests s @ [GetTopGainers] \<rparr>"

definition loadTopLosers :: "dashboard \<Rightarrow> dashboard" where
  "loadTopLosers s = s\<lparr> requests := requests s @ [GetTopLosers] \<rparr>"

definition DOMContentLoaded :: "dashboard \<Rightarrow> dashboard" where
  "DOMContentLoaded s = loadTopLosers (loadTopGainers (loadCompanies (checkAPIStatus s)))"

definition refreshAllData :: "dashboard \<Rightarrow> dashboard" where
  "refreshAllData s =
     (let s1 = (case currentStock s of
                  None \<Rightarrow> s
                | Some symbol \<Rightarrow> if symbol \<noteq> [] then loadStockData symbol s else s)
      in loadTopLosers (loadTopGainers (loadCompanies s1)))"

text \<open>The change listener of the period selector (lines 28 to 32).\<close>

definition timePeriod_change :: "dashboard \<Rightarrow> dashboard" where
  "timePeriod_change s =
     (case currentStock s of
        None \<Rightarrow> s
      | Some symbol \<Rightarrow> if symbol \<noteq> [] then loadStockData symbol s else s)"

datatype event =
    Click_company nat
  | Input_searchCompany string
  | Change_timePeriod string
  | Change_compareStock string
  | Click_compareBtn
  | Click_refreshData
  | Interval_elapsed
  | Click_closeComparison
  | Settled nat settlement

definition resume :: "task \<Rightarrow> settlement \<Rightarrow> dashboard \<Rightarrow> dashboard option" where
  "resume t r s =
     (case (t, r) of
        (LoadCompaniesTask, CompaniesSettled response) \<Rightarrow> Some (loadCompanies_settled response s)
      | (LoadStockDataTask _ _, StockDataSettled dataResponse summaryResponse) \<Rightarrow>
          Some (loadStockData_settled dataResponse summaryResponse s)
      | (CompareStocksTask _ _ _, CompareSettled response) \<Rightarrow>
          Some (compareStocks_settled response s)
      | (ComparisonChartTask c, ComparisonDataSettled res1 res2) \<Rightarrow>
          Some (comparisonChart_settled c res1 res2 s)
      | _ \<Rightarrow> None)"

text \<open>
  One event of the page after \<^verbatim>\<open>DOMContentLoaded\<close>. The browser writes the new value
  of an input before its listener runs. \<open>Settled i r\<close> delivers the responses \<open>r\<close> to
  the suspended body at position \<open>i\<close>, in whatever order the network answers.
\<close>

definition step :: "event \<Rightarrow> dashboard \<Rightarrow> dashboard" where
  "step e s =
     (case e of
        Click_company i \<Rightarrow> click_company i s
      | Input_searchCompany text \<Rightarrow> filterCompanies (s\<lparr> searchCompany := text \<rparr>)
      | Change_timePeriod v \<Rightarrow> timePeriod_change (s\<lparr> timePeriod := v \<rparr>)
      | Change_compareStock v \<Rightarrow>
          (if v \<in> set (map fst (compareOptions s)) then s\<lparr> compareStock := v \<rparr> else s)
      | Click_compareBtn \<Rightarrow> compareStocks s
      | Click_refreshData \<Rightarrow> refreshAllData s
      | Interval_elapsed \<Rightarrow> refreshAllData s
      | Click_closeComparison \<Rightarrow> s\<lparr> comparisonSection := DisplayNone \<rparr>
      | Settled i r \<Rightarrow>
          (if i < length (pending s) then
             (case resume (pending s ! i) r
                     (s\<lparr> pending := take i (pending s) @ drop (Suc i) (pending s) \<rparr>) of
                None \<Rightarrow> s
              | Some s' \<Rightarrow> s')
           else s))"

definition run :: "event list \<Rightarrow> dashboard \<Rightarrow> dashboard" where
  "run es s = fold step es s"

section \<open>Notions used in the properties\<close>

text \<open>Unary minus on a JavaScript number.\<close>

definition js_negate :: "jsval \<Rightarrow> jsval" where
  "js_negate v =
     (case v of
        Num x \<Rightarrow> Num (- x)
      | PosInfinity \<Rightarrow> NegInfinity
      | NegInfinity \<Rightarrow> PosInfinity
      | _ \<Rightarrow> NaN)"











text \<open>The ways a request of \<^verbatim>\<open>loadStockData\<close> can fail to give usable data.\<close>

definition series_failed :: "series_json fetched \<Rightarrow> bool" where
  "series_failed r = (case r of Response _ (Json (SeriesArray _)) \<Rightarrow> False | _ \<Rightarrow> True)"

definition summary_failed :: "stock_summary fetched \<Rightarrow> bool" where
  "summary_failed r =
     (case r of Response _ (Json summary) \<Rightarrow> summary_symbol summary = None | _ \<Rightarrow> True)"

text \<open>
  Well-formedness of the chart store: identifiers are unique and below the next one
  to be given out, each of the price and returns canvases carries exactly the chart
  its variable holds, and the comparison variable holds an identifier already given
  out that is not the one of the price or the returns chart.
\<close>

definition slot_ok :: "canvas \<Rightarrow> nat option \<Rightarrow> dashboard \<Rightarrow> bool" where
  "slot_ok cv handle s =
     (map fst (live_on cv s) = (case handle of None \<Rightarrow> [] | Some h \<Rightarrow> [h]))"

definition charts_wf :: "dashboard \<Rightarrow> bool" where
  "charts_wf s =
     (distinct (map fst (live_charts s))
      \<and> list_all (\<lambda>e. fst e < next_chart s) (live_charts s)
      \<and> slot_ok PriceCanvas (priceChart s) s
      \<and> slot_ok ReturnsCanvas (returnsChart s) s
      \<and> (case comparisonChart s of
            None \<Rightarrow> True
          | Some h \<Rightarrow> h < next_chart s \<and> priceChart s \<noteq> Some h \<and> returnsChart s \<noteq> Some h))"

definition ids_ok :: "dashboard \<Rightarrow> bool" where
  "ids_ok s =
     (distinct (map fst (live_charts s)) \<and> list_all (\<lambda>e. fst e < next_chart s) (live_charts s))"

text \<open>The part of the state the chart objects live in.\<close>

definition chart_store ::
  "dashboard \<Rightarrow> (nat \<times> chart) list \<times> nat \<times> nat option \<times> nat option \<times> nat option" where
  "chart_store s = (live_charts s, next_chart s, priceChart s, returnsChart s, comparisonChart s)"

definition at_most_one_live :: "canvas \<Rightarrow> dashboard \<Rightarrow> bool" where
  "at_most_one_live cv s = (length (live_on cv s) \<le> 1)"

definition price_and_returns_at_most_one :: "dashboard \<Rightarrow> bool" where
  "price_and_returns_at_most_one s =
     (at_most_one_live PriceCanvas s \<and> at_most_one_live ReturnsCanvas s)"

text \<open>Consecutive calls of \<^verbatim>\<open>updateCharts\<close>, one per series, and the states they pass through.\<close>

fun updateCharts_calls :: "stock_point list list \<Rightarrow> dashboard \<Rightarrow> dashboard" where
  "updateCharts_calls [] s = s"
| "updateCharts_calls (d # ds) s =
     (case updateCharts (SeriesArray d) s of
        Inl _ \<Rightarrow> s
      | Inr s' \<Rightarrow> updateCharts_calls ds s')"

fun updateCharts_trace :: "stock_point list list \<Rightarrow> dashboard \<Rightarrow> dashboard list" where
  "updateCharts_trace [] s = []"
| "updateCharts_trace (d # ds) s =
     renderCharts_instants d s @ updateCharts_trace ds (renderCharts d s)"


text \<open>Some stock is selected.\<close>

definition has_selection :: "dashboard \<Rightarrow> bool" where
  "has_selection s = (currentStock s \<noteq> None)"

subsection \<open>Example data\<close>

definition tcs :: company where
  "tcs = \<lparr> company_symbol = ''TCS.NS'', company_name = ''TCS'', company_sector = ''IT'' \<rparr>"

definition infy :: company where
  "infy = \<lparr> company_symbol = ''INFY.NS'', company_name = ''Infosys'', company_sector = ''IT'' \<rparr>"

definition series_of :: "real \<Rightarrow> stock_point list" where
  "series_of p =
     [\<lparr> point_date = ''2024-01-01'', point_close = p, moving_avg_7 = None, daily_return = None \<rparr>,
      \<lparr> point_date = ''2024-01-02'', point_close = p + 10, moving_avg_7 = Some (p + 5),
        daily_return = Some (1 / 10) \<rparr>]"

definition summary_of :: "string \<Rightarrow> real \<Rightarrow> stock_summary" where
  "summary_of symbol p =
     \<lparr> summary_symbol = Some symbol, current_price = Some p, summary_daily_return = None,
       week52_high = Some (p + 20), week52_low = Some (p - 20), average_close = Some p,
       volatility = None \<rparr>"

text \<open>The page once the company list \<open>[tcs, infy]\<close> has arrived: the first company is selected.\<close>

definition loaded :: dashboard where
  "loaded =
     run [Settled 0 (CompaniesSettled (Response 200 (Json (CompaniesArray [tcs, infy]))))]
       (DOMContentLoaded (initial ''30''))"

text \<open>
  A run in which the answer for \<open>TCS.NS\<close> arrives after the one for \<open>INFY.NS\<close>,
  selected later.
\<close>

definition infy_arrives :: event where
  "infy_arrives =
     Settled 1 (StockDataSettled (Response 200 (Json (SeriesArray (series_of 50))))
                                 (Response 200 (Json (summary_of ''INFY.NS'' 50))))"

definition tcs_arrives :: event where
  "tcs_arrives =
     Settled 0 (StockDataSettled (Response 200 (Json (SeriesArray (series_of 100))))
                                 (Response 200 (Json (summary_of ''TCS.NS'' 100))))"

definition stale_run :: dashboard where
  "stale_run = run [Click_company 1, infy_arrives, tcs_arrives] loaded"







text \<open>The series arrives and the summary request is answered with status 500.\<close>

definition error_object :: stock_summary where
  "error_object =
     \<lparr> summary_symbol = None, current_price = None, summary_daily_return = None,
       week52_high = None, week52_low = None, average_close = None, volatility = None \<rparr>"

definition summary_fails :: event where
  "summary_fails =
     Settled 0 (StockDataSettled (Response 200 (Json (SeriesArray (series_of 100))))
                                 (Response 500 NotJson))"

definition summary_fails_json :: event where
  "summary_fails_json =
     Settled 0 (StockDataSettled (Response 200 (Json (SeriesArray (series_of 100))))
                                 (Response 500 (Json error_object)))"

section \<open>Substring search\<close>




section \<open>Series derivation: returns, rebasing, differential\<close>

text \<open>
  C8. The returns series of \<^verbatim>\<open>updateCharts\<close> has one entry per point: the point's
  \<^verbatim>\<open>daily_return\<close> scaled to percent, and 0 where the field is absent; it is the data
  of the bar chart.
\<close>

theorem dailyReturns_per_point:
  "length (dailyReturns points) = length points \<and>
   dailyReturns points =
     map (\<lambda>d. case daily_return d of None \<Rightarrow> 0 | Some r \<Rightarrow> r * 100) points \<and>
   chart_datasets (returns_config points) = [(''Daily Return (%)'', map Num (dailyReturns points))]"
  by (auto simp: dailyReturns_def returns_config_def split: option.splits)

theorem dailyReturns_per_point_witness:
  "dailyReturns (series_of 100) = [0, 10]"
  using dailyReturns_per_point [of "series_of 100"] by (simp add: series_of_def)

text \<open>
  C4. A price series whose first element is not zero is rebased to the percent change
  from that element, entry by entry, so the first entry of the result is 0. The witness
  is the scenario of the two series \<open>[100, 110, 90]\<close> and \<open>[50, 55, 60]\<close>.
\<close>

theorem normalized_rebases:
  assumes "base \<noteq> 0"
  shows "normalized (base # rest) =
           map (\<lambda>p. Num ((p - base) / base * 100)) (base # rest) \<and>
         (\<forall>i < length (base # rest).
            normalized (base # rest) ! i = Num (((base # rest) ! i - base) / base * 100)) \<and>
         normalized (base # rest) ! 0 = Num 0"
proof -
  have eq: "normalized (base # rest) = map (\<lambda>p. Num ((p - base) / base * 100)) (base # rest)"
    using assms by (simp add: normalized_def js_div_def js_times_def)
  have "\<forall>i < length (base # rest).
          normalized (base # rest) ! i = Num (((base # rest) ! i - base) / base * 100)"
    unfolding eq by (metis length_map nth_map)
  moreover have "normalized (base # rest) ! 0 = Num 0"
    unfolding eq by simp
  ultimately show ?thesis using eq by blast
qed

theorem normalized_rebases_witness:
  "(100::real) \<noteq> 0 \<and> (50::real) \<noteq> 0 \<and>
   normalized [100, 110, 90] = [Num 0, Num 10, Num (- 10)] \<and>
   normalized [50, 55, 60] = [Num 0, Num 10, Num 20]"
  using normalized_rebases [of 100 "[110, 90]"] normalized_rebases [of 50 "[55, 60]"]
  by simp

text \<open>
  C6. The performance differential is the performance of the first stock minus that
  of the second, signed, and it is what the page shows; exchanging the two stocks
  negates it.
\<close>

theorem perfDiff_antisymmetric:
  "(map_of (performance c) (fst (stocks c)) = Some a \<and>
    map_of (performance c) (snd (stocks c)) = Some b \<longrightarrow>
      perfDiff c = Num (a - b) \<and>
      perfDiff (c\<lparr> stocks := prod.swap (stocks c) \<rparr>) = Num (- (a - b))) \<and>
   perfDiff (c\<lparr> stocks := prod.swap (stocks c) \<rparr>) = js_negate (perfDiff c) \<and>
   (displayComparison (ComparisonObject c) s = Inr s' \<longrightarrow> perfDifference s' = Some (perfDiff c))"
  by (auto simp: perfDiff_def js_negate_def displayComparison_def Let_def destroy_def
           split: option.splits)

theorem perfDiff_antisymmetric_witness:
  "perfDiff \<lparr> stocks = (''A'', ''B''), correlation = 1 / 2,
              performance = [(''A'', - 10), (''B'', 20)], period_days = 30 \<rparr> = Num (- 30) \<and>
   perfDiff \<lparr> stocks = (''B'', ''A''), correlation = 1 / 2,
              performance = [(''A'', - 10), (''B'', 20)], period_days = 30 \<rparr> = Num 30"
  using perfDiff_antisymmetric
    [of "\<lparr> stocks = (''A'', ''B''), correlation = 1 / 2,
           performance = [(''A'', - 10), (''B'', 20)], period_days = 30 \<rparr>" "- 10" 20]
  by simp

section \<open>Comparison guard\<close>

text \<open>
  C10. With no stock selected, or with the empty value in the comparison selector, a
  click on the compare button only raises the notice: no request is issued, nothing is
  left pending, no chart is created or destroyed and the comparison panel stays as it is.
\<close>

theorem compareStocks_guard:
  assumes "currentStock s = None \<or> compareStock s = []"
  shows "step Click_compareBtn s = s\<lparr> alerts := alerts s @ [''Please select a stock to compare with''] \<rparr> \<and>
         requests (step Click_compareBtn s) = requests s \<and>
         pending (step Click_compareBtn s) = pending s \<and>
         live_charts (step Click_compareBtn s) = live_charts s \<and>
         comparisonSection (step Click_compareBtn s) = comparisonSection s"
  using assms by (auto simp: step_def compareStocks_def truthy_def Let_def)

theorem compareStocks_guard_witness:
  "currentStock (initial ''30'') = None \<and>
   step Click_compareBtn (initial ''30'') =
     (initial ''30'')\<lparr> alerts := [''Please select a stock to compare with''] \<rparr> \<and>
   compareStock loaded = [] \<and> requests (step Click_compareBtn loaded) = requests loaded"
proof -
  have a: "currentStock (initial ''30'') = None" by (simp add: initial_def)
  have b: "compareStock loaded = []" by code_simp
  show ?thesis
    using compareStocks_guard [of "initial ''30''"] compareStocks_guard [of loaded] a b
    by (simp add: initial_def)
qed

section \<open>Search filter\<close>

















section \<open>Period change\<close>

text \<open>
  The claim that a period change reloads the series only fails: with \<open>TCS.NS\<close>
  selected, the requests issued by the change include the one for its summary.
\<close>

theorem timePeriod_change_counterexample:
  "currentStock loaded = Some ''TCS.NS'' \<and>
   GetSummary ''TCS.NS'' \<in>
     set (drop (length (requests loaded)) (requests (step (Change_timePeriod ''90'') loaded)))"
  by code_simp

text \<open>
  C7, as amended. With a stock selected, a change of the period sets the period and
  runs the whole \<^verbatim>\<open>loadStockData\<close> for that stock: it issues the series request with the
  new period and the summary request, and nothing else; the company list is neither
  requested nor changed.
\<close>

theorem timePeriod_change_reloads_stock:
  assumes "currentStock s = Some symbol" and "symbol \<noteq> []"
  shows "timePeriod (step (Change_timePeriod v) s) = v \<and>
         requests (step (Change_timePeriod v) s) =
           requests s @ [GetData symbol (PeriodValue v), GetSummary symbol] \<and>
         pending (step (Change_timePeriod v) s) = pending s @ [LoadStockDataTask symbol v] \<and>
         currentStock (step (Change_timePeriod v) s) = Some symbol \<and>
         companiesList (step (Change_timePeriod v) s) = companiesList s"
  using assms by (simp add: step_def timePeriod_change_def loadStockData_def Let_def)

theorem timePeriod_change_reloads_stock_witness:
  "currentStock loaded = Some ''TCS.NS'' \<and>
   requests (step (Change_timePeriod ''90'') loaded) =
     requests loaded @ [GetData ''TCS.NS'' (PeriodValue ''90''), GetSummary ''TCS.NS'']"
proof -
  have a: "currentStock loaded = Some ''TCS.NS''" by code_simp
  show ?thesis using timePeriod_change_reloads_stock [OF a, of "''90''"] a by simp
qed

section \<open>Selection\<close>

text \<open>No event of the page clears the selection once there is one.\<close>

lemma currentStock_loadStockData: "currentStock (loadStockData symbol s) = Some symbol"
  by (simp add: loadStockData_def Let_def)

lemma selection_click_company: "has_selection s \<Longrightarrow> has_selection (click_company i s)"
  by (simp add: has_selection_def click_company_def Let_def currentStock_loadStockData)

lemma selection_displayCompanies:
  "has_selection s \<Longrightarrow> has_selection (displayCompanies companies s)"
proof -
  assume a: "has_selection s"
  then have "has_selection (s\<lparr> companiesList := CompanyItems (map company_element companies) \<rparr>)"
    by (simp add: has_selection_def)
  then show ?thesis
    using selection_click_company by (cases "companies = []") (simp_all add: displayCompanies_def Let_def)
qed

lemma selection_loadCompanies_settled:
  "has_selection s \<Longrightarrow> has_selection (loadCompanies_settled response s)"
proof -
  assume a: "has_selection s"
  have c: "has_selection (loadCompanies_catch s)"
    using a by (simp add: has_selection_def loadCompanies_catch_def)
  have d: "has_selection (updateCompanyStats cs (populateCompareDropdown cs (displayCompanies cs s)))"
    for cs
    using selection_displayCompanies [OF a, of cs]
    by (simp add: has_selection_def updateCompanyStats_def populateCompareDropdown_def)
  show ?thesis
    using c d
    by (simp add: loadCompanies_settled_def
        split: fetched.splits body.splits companies_json.splits)
qed

lemma currentStock_renderCharts: "currentStock (renderCharts d s) = currentStock s"
  by (simp add: renderCharts_def create_returnsChart_def destroy_returnsChart_def
      create_priceChart_def destroy_priceChart_def new_Chart_def destroy_def
      split: option.splits)

lemma currentStock_loadStockData_settled:
  "currentStock (loadStockData_settled r1 r2 s) = currentStock s"
  by (auto simp: loadStockData_settled_def loadStockData_catch_def updateStockInfo_def
      updateCharts_def updateMetrics_def currentStock_renderCharts
      split: fetched.splits body.splits series_json.splits option.splits sum.splits)

lemma currentStock_compareStocks_settled:
  "currentStock (compareStocks_settled r s) = currentStock s"
  by (auto simp: compareStocks_settled_def compareStocks_catch_def displayComparison_def
      destroy_def Let_def
      split: fetched.splits body.splits comparison_json.splits option.splits sum.splits)

lemma currentStock_comparisonChart_settled:
  "currentStock (comparisonChart_settled c r1 r2 s) = currentStock s"
  by (auto simp: comparisonChart_settled_def comparisonChart_catch_def new_Chart_def
      split: fetched.splits body.splits series_json.splits)

lemma selection_resume:
  assumes "resume t r s = Some s'" and "has_selection s"
  shows "has_selection s'"
proof (cases t)
  case LoadCompaniesTask
  then show ?thesis
    using assms selection_loadCompanies_settled
    by (auto simp: resume_def split: settlement.splits)
next
  case (LoadStockDataTask x y)
  then show ?thesis
    using assms
    by (auto simp: resume_def has_selection_def currentStock_loadStockData_settled
        split: settlement.splits)
next
  case (CompareStocksTask x y z)
  then show ?thesis
    using assms
    by (auto simp: resume_def has_selection_def currentStock_compareStocks_settled
        split: settlement.splits)
next
  case (ComparisonChartTask c)
  then show ?thesis
    using assms
    by (auto simp: resume_def has_selection_def currentStock_comparisonChart_settled
        split: settlement.splits)
qed

lemma selection_refreshAllData: "has_selection s \<Longrightarrow> has_selection (refreshAllData s)"
  by (auto simp: has_selection_def refreshAllData_def loadTopLosers_def loadTopGainers_def
      loadCompanies_def currentStock_loadStockData Let_def split: option.splits)

lemma selection_step:
  assumes "has_selection s"
  shows "has_selection (step e s)"
proof (cases e)
  case (Click_company i)
  then show ?thesis using assms by (simp add: step_def selection_click_company)
next
  case (Input_searchCompany x)
  then show ?thesis using assms
    by (simp add: has_selection_def step_def filterCompanies_def Let_def
        split: companies_panel.splits)
next
  case (Change_timePeriod v)
  then show ?thesis using assms
    by (auto simp: has_selection_def step_def timePeriod_change_def currentStock_loadStockData
        split: option.splits)
next
  case (Change_compareStock v)
  then show ?thesis using assms by (simp add: has_selection_def step_def)
next
  case Click_compareBtn
  then show ?thesis using assms
    by (auto simp: has_selection_def step_def compareStocks_def Let_def split: option.splits)
next
  case Click_refreshData
  then show ?thesis using assms by (simp add: step_def selection_refreshAllData)
next
  case Interval_elapsed
  then show ?thesis using assms by (simp add: step_def selection_refreshAllData)
next
  case Click_closeComparison
  then show ?thesis using assms by (simp add: has_selection_def step_def)
next
  case (Settled i r)
  show ?thesis
  proof (cases "i < length (pending s)")
    case False
    then show ?thesis using assms Settled by (simp add: step_def)
  next
    case True
    let ?s = "s\<lparr> pending := take i (pending s) @ drop (Suc i) (pending s) \<rparr>"
    have "has_selection ?s" using assms by (simp add: has_selection_def)
    then show ?thesis using assms Settled True selection_resume [of "pending s ! i" r ?s]
      by (auto simp: step_def split: option.splits)
  qed
qed

lemma selection_run: "has_selection s \<Longrightarrow> has_selection (run es s)"
  unfolding run_def by (induction es arbitrary: s) (simp_all add: selection_step)

text \<open>
  C9. When the company list arrives as a non-empty array, the first company is
  selected: \<open>currentStock\<close> becomes its symbol and the two requests of a stock-data
  load for it are issued, with the load left pending; whatever happens afterwards,
  \<open>currentStock\<close> is never unset again.
\<close>

theorem first_company_selected:
  fixes s :: dashboard and status :: nat and c :: company and cs :: "company list"
  assumes "i < length (pending s)" and "pending s ! i = LoadCompaniesTask"
  defines "s' \<equiv> step (Settled i (CompaniesSettled
                    (Response status (Json (CompaniesArray (c # cs)))))) s"
  shows "currentStock s' = Some (company_symbol c) \<and>
         requests s' = requests s @
           [GetData (company_symbol c) (PeriodValue (timePeriod s)), GetSummary (company_symbol c)] \<and>
         LoadStockDataTask (company_symbol c) (timePeriod s) \<in> set (pending s') \<and>
         (\<forall>es. currentStock (run es s') \<noteq> None)"
proof -
  have s': "s' = loadCompanies_settled (Response status (Json (CompaniesArray (c # cs))))
                   (s\<lparr> pending := take i (pending s) @ drop (Suc i) (pending s) \<rparr>)"
    using assms(1,2) by (simp add: s'_def step_def resume_def)
  have 1: "currentStock s' = Some (company_symbol c)"
    unfolding s'
    by (simp add: loadCompanies_settled_def updateCompanyStats_def populateCompareDropdown_def
        displayCompanies_def click_company_def company_items_def loadStockData_def Let_def
        company_element_def)
  have 2: "requests s' = requests s @
           [GetData (company_symbol c) (PeriodValue (timePeriod s)), GetSummary (company_symbol c)]"
    unfolding s'
    by (simp add: loadCompanies_settled_def updateCompanyStats_def populateCompareDropdown_def
        displayCompanies_def click_company_def company_items_def loadStockData_def Let_def
        company_element_def)
  have 3: "LoadStockDataTask (company_symbol c) (timePeriod s) \<in> set (pending s')"
    unfolding s'
    by (simp add: loadCompanies_settled_def updateCompanyStats_def populateCompareDropdown_def
        displayCompanies_def click_company_def company_items_def loadStockData_def Let_def
        company_element_def)
  have 4: "\<forall>es. currentStock (run es s') \<noteq> None"
    using 1 selection_run [of s'] by (simp add: has_selection_def)
  from 1 2 3 4 show ?thesis by blast
qed

theorem first_company_selected_witness:
  "pending (DOMContentLoaded (initial ''30'')) ! 0 = LoadCompaniesTask \<and>
   currentStock (DOMContentLoaded (initial ''30'')) = None \<and>
   currentStock loaded = Some ''TCS.NS'' \<and>
   requests loaded = requests (DOMContentLoaded (initial ''30'')) @
     [GetData ''TCS.NS'' (PeriodValue ''30''), GetSummary ''TCS.NS'']"
proof -
  have a: "0 < length (pending (DOMContentLoaded (initial ''30'')))" by code_simp
  have b: "pending (DOMContentLoaded (initial ''30'')) ! 0 = LoadCompaniesTask" by code_simp
  have c: "currentStock (DOMContentLoaded (initial ''30'')) = None" by code_simp
  have d: "timePeriod (DOMContentLoaded (initial ''30'')) = ''30''" by code_simp
  show ?thesis
    using first_company_selected [OF a b, of 200 tcs "[infy]"] b c d
    by (simp add: loaded_def run_def tcs_def)
qed

section \<open>Chart lifecycle: one live chart per canvas\<close>

lemma singleton_of_keys:
  assumes "map fst xs = [h]"
  obtains e where "xs = [e]" and "fst e = h"
  using assms by (cases xs) auto

lemma filter_own_canvas:
  assumes "map fst (filter (\<lambda>e. chart_canvas (snd e) = a) L) = [h]"
  shows "filter (\<lambda>e. chart_canvas (snd e) = a) (filter (\<lambda>e. fst e \<noteq> h) L) = []"
proof -
  obtain e where e: "filter (\<lambda>e. chart_canvas (snd e) = a) L = [e]" "fst e = h"
    using assms by (rule singleton_of_keys)
  have "filter (\<lambda>e. chart_canvas (snd e) = a) (filter (\<lambda>e. fst e \<noteq> h) L) =
        filter (\<lambda>e. fst e \<noteq> h) (filter (\<lambda>e. chart_canvas (snd e) = a) L)"
    by (simp add: conj_commute)
  then show ?thesis using e by simp
qed

lemma filter_other_canvas:
  assumes "distinct (map fst L)"
    and "map fst (filter (\<lambda>e. chart_canvas (snd e) = a) L) = [h]"
    and "b \<noteq> a"
  shows "filter (\<lambda>e. chart_canvas (snd e) = b) (filter (\<lambda>e. fst e \<noteq> h) L) =
         filter (\<lambda>e. chart_canvas (snd e) = b) L"
proof -
  obtain e where e: "filter (\<lambda>e. chart_canvas (snd e) = a) L = [e]" "fst e = h"
    using assms(2) by (rule singleton_of_keys)
  then have "e \<in> set (filter (\<lambda>e. chart_canvas (snd e) = a) L)" by simp
  then have eL: "e \<in> set L" and ea: "chart_canvas (snd e) = a" by auto
  have "fst x \<noteq> h" if "x \<in> set L" and "chart_canvas (snd x) = b" for x
  proof
    assume "fst x = h"
    then have "fst x = fst e" using e(2) by simp
    then have "snd x = snd e"
      using assms(1) that(1) eL by (metis eq_key_imp_eq_value prod.collapse)
    then show False using that(2) ea assms(3) by simp
  qed
  then have "filter (\<lambda>e. chart_canvas (snd e) = b) (filter (\<lambda>e. fst e \<noteq> h) L) =
        filter (\<lambda>e. chart_canvas (snd e) = b) L"
    by (auto intro!: filter_cong)
  then show ?thesis .
qed

lemma live_on_destroy:
  "live_on cv (destroy h s) = filter (\<lambda>e. fst e \<noteq> h) (live_on cv s)"
  by (simp add: live_on_def destroy_def conj_commute)

lemma charts_wf_initial: "charts_wf (initial period)"
  by (simp add: charts_wf_def slot_ok_def live_on_def initial_def)

lemma charts_wf_cong: "chart_store s' = chart_store s \<Longrightarrow> charts_wf s \<Longrightarrow> charts_wf s'"
  by (auto simp: charts_wf_def slot_ok_def live_on_def chart_store_def split: option.splits)

lemma ids_ok_destroy: "ids_ok s \<Longrightarrow> ids_ok (destroy h s)"
  by (simp add: ids_ok_def destroy_def distinct_map_filter list_all_iff)

lemma ids_ok_new_Chart: "ids_ok s \<Longrightarrow> ids_ok (snd (new_Chart c s))"
  by (auto simp: ids_ok_def new_Chart_def list_all_iff)

lemma live_on_new_Chart:
  "live_on cv (snd (new_Chart c s)) =
     live_on cv s @ (if chart_canvas c = cv then [(next_chart s, c)] else [])"
  by (simp add: live_on_def new_Chart_def)

lemma destroy_slot:
  assumes "ids_ok s" and "slot_ok a handle s"
  shows "live_on a (case handle of None \<Rightarrow> s | Some h \<Rightarrow> destroy h s) = []"
    and "b \<noteq> a \<Longrightarrow> live_on b (case handle of None \<Rightarrow> s | Some h \<Rightarrow> destroy h s) = live_on b s"
proof -
  show "live_on a (case handle of None \<Rightarrow> s | Some h \<Rightarrow> destroy h s) = []"
  proof (cases handle)
    case None
    then show ?thesis using assms(2) by (simp add: slot_ok_def)
  next
    case (Some h)
    then have "map fst (filter (\<lambda>e. chart_canvas (snd e) = a) (live_charts s)) = [h]"
      using assms(2) by (simp add: slot_ok_def live_on_def)
    then show ?thesis using Some filter_own_canvas [of a "live_charts s" h]
      by (simp add: live_on_def destroy_def)
  qed
  show "live_on b (case handle of None \<Rightarrow> s | Some h \<Rightarrow> destroy h s) = live_on b s" if "b \<noteq> a"
  proof (cases handle)
    case None
    then show ?thesis by simp
  next
    case (Some h)
    then have "map fst (filter (\<lambda>e. chart_canvas (snd e) = a) (live_charts s)) = [h]"
      using assms(2) by (simp add: slot_ok_def live_on_def)
    then show ?thesis
      using Some that assms(1) filter_other_canvas [of "live_charts s" a h b]
      by (simp add: live_on_def destroy_def ids_ok_def)
  qed
qed

lemma renderCharts_instants_live:
  fixes s :: dashboard and d :: "stock_point list"
  assumes "charts_wf s"
  defines "s1 \<equiv> destroy_priceChart s"
  defines "s2 \<equiv> create_priceChart d s1"
  defines "s3 \<equiv> destroy_returnsChart s2"
  defines "s4 \<equiv> create_returnsChart d s3"
  shows "live_on PriceCanvas s1 = [] \<and> live_on ReturnsCanvas s1 = live_on ReturnsCanvas s"
    and "live_on PriceCanvas s2 = [(next_chart s, price_config d)]
         \<and> live_on ReturnsCanvas s2 = live_on ReturnsCanvas s"
    and "live_on PriceCanvas s3 = [(next_chart s, price_config d)] \<and> live_on ReturnsCanvas s3 = []"
    and "live_on PriceCanvas s4 = [(next_chart s, price_config d)]
         \<and> live_on ReturnsCanvas s4 = [(Suc (next_chart s), returns_config d)]"
    and "ids_ok s4" and "next_chart s4 = Suc (Suc (next_chart s))"
    and "priceChart s4 = Some (next_chart s)" and "returnsChart s4 = Some (Suc (next_chart s))"
    and "comparisonChart s4 = comparisonChart s"
    and "live_on ComparisonCanvas s4 = live_on ComparisonCanvas s"
proof -
  have wf: "ids_ok s" "slot_ok PriceCanvas (priceChart s) s" "slot_ok ReturnsCanvas (returnsChart s) s"
    using assms(1) by (simp_all add: charts_wf_def ids_ok_def)
  have s1_eq: "s1 = (case priceChart s of None \<Rightarrow> s | Some h \<Rightarrow> destroy h s)"
    by (simp add: s1_def destroy_priceChart_def)
  have 1: "live_on PriceCanvas s1 = []" "live_on ReturnsCanvas s1 = live_on ReturnsCanvas s"
    "live_on ComparisonCanvas s1 = live_on ComparisonCanvas s"
    unfolding s1_eq using destroy_slot [OF wf(1) wf(2)] by simp_all
  have i1: "ids_ok s1" unfolding s1_eq using wf(1) ids_ok_destroy by (simp split: option.splits)
  have n1: "next_chart s1 = next_chart s" "returnsChart s1 = returnsChart s"
    "comparisonChart s1 = comparisonChart s"
    unfolding s1_eq by (simp_all add: destroy_def split: option.splits)
  have s2_eq: "s2 = (snd (new_Chart (price_config d) s1))\<lparr> priceChart := Some (next_chart s1) \<rparr>"
    by (simp add: s2_def create_priceChart_def new_Chart_def)
  have lo2: "live_on cv s2 = live_on cv (snd (new_Chart (price_config d) s1))" for cv
    unfolding s2_eq by (simp add: live_on_def)
  have 2: "live_on PriceCanvas s2 = [(next_chart s, price_config d)]"
    "live_on ReturnsCanvas s2 = live_on ReturnsCanvas s"
    "live_on ComparisonCanvas s2 = live_on ComparisonCanvas s"
    unfolding lo2 live_on_new_Chart using 1 n1 by (simp_all add: price_config_def)
  have i2: "ids_ok s2"
    using ids_ok_new_Chart [OF i1, of "price_config d"] unfolding s2_eq by (simp add: ids_ok_def)
  have n2: "next_chart s2 = Suc (next_chart s)" "returnsChart s2 = returnsChart s"
    "priceChart s2 = Some (next_chart s)" "comparisonChart s2 = comparisonChart s"
    unfolding s2_eq using n1 by (simp_all add: new_Chart_def)
  have r2: "slot_ok ReturnsCanvas (returnsChart s2) s2"
    using wf(3) 2(2) n2(2) by (simp add: slot_ok_def)
  have s3_eq: "s3 = (case returnsChart s2 of None \<Rightarrow> s2 | Some h \<Rightarrow> destroy h s2)"
    by (simp add: s3_def destroy_returnsChart_def)
  have 3: "live_on ReturnsCanvas s3 = []" "live_on PriceCanvas s3 = [(next_chart s, price_config d)]"
    "live_on ComparisonCanvas s3 = live_on ComparisonCanvas s"
    unfolding s3_eq using destroy_slot [OF i2 r2] 2 by simp_all
  have i3: "ids_ok s3" unfolding s3_eq using i2 ids_ok_destroy by (simp split: option.splits)
  have n3: "next_chart s3 = Suc (next_chart s)" "priceChart s3 = Some (next_chart s)"
    "comparisonChart s3 = comparisonChart s"
    unfolding s3_eq using n2 by (simp_all add: destroy_def split: option.splits)
  have s4_eq: "s4 = (snd (new_Chart (returns_config d) s3))\<lparr> returnsChart := Some (next_chart s3) \<rparr>"
    by (simp add: s4_def create_returnsChart_def new_Chart_def)
  have lo4: "live_on cv s4 = live_on cv (snd (new_Chart (returns_config d) s3))" for cv
    unfolding s4_eq by (simp add: live_on_def)
  have 4: "live_on PriceCanvas s4 = [(next_chart s, price_config d)]"
    "live_on ReturnsCanvas s4 = [(Suc (next_chart s), returns_config d)]"
    "live_on ComparisonCanvas s4 = live_on ComparisonCanvas s"
    unfolding lo4 live_on_new_Chart using 3 n3 by (simp_all add: returns_config_def)
  have i4: "ids_ok s4"
    using ids_ok_new_Chart [OF i3, of "returns_config d"] unfolding s4_eq by (simp add: ids_ok_def)
  have n4: "next_chart s4 = Suc (Suc (next_chart s))" "priceChart s4 = Some (next_chart s)"
    "returnsChart s4 = Some (Suc (next_chart s))" "comparisonChart s4 = comparisonChart s"
    unfolding s4_eq using n3 by (simp_all add: new_Chart_def)
  show "live_on PriceCanvas s1 = [] \<and> live_on ReturnsCanvas s1 = live_on ReturnsCanvas s"
    using 1 by simp
  show "live_on PriceCanvas s2 = [(next_chart s, price_config d)]
         \<and> live_on ReturnsCanvas s2 = live_on ReturnsCanvas s" using 2 by simp
  show "live_on PriceCanvas s3 = [(next_chart s, price_config d)] \<and> live_on ReturnsCanvas s3 = []"
    using 3 by simp
  show "live_on PriceCanvas s4 = [(next_chart s, price_config d)]
         \<and> live_on ReturnsCanvas s4 = [(Suc (next_chart s), returns_config d)]" using 4 by simp
  show "ids_ok s4" by (rule i4)
  show "next_chart s4 = Suc (Suc (next_chart s))" "priceChart s4 = Some (next_chart s)"
    "returnsChart s4 = Some (Suc (next_chart s))" "comparisonChart s4 = comparisonChart s"
    using n4 by simp_all
  show "live_on ComparisonCanvas s4 = live_on ComparisonCanvas s" using 4 by simp
qed


lemma slot_handle_bound:
  assumes "ids_ok s" and "slot_ok cv (Some h) s"
  shows "h < next_chart s"
proof -
  have "map fst (live_on cv s) = [h]" using assms(2) by (simp add: slot_ok_def)
  then obtain e where "live_on cv s = [e]" "fst e = h" by (rule singleton_of_keys)
  then have "e \<in> set (live_on cv s)" by simp
  then have "e \<in> set (live_charts s)" by (simp add: live_on_def)
  then show ?thesis using assms(1) \<open>fst e = h\<close> by (auto simp: ids_ok_def list_all_iff)
qed

lemma charts_wf_renderCharts:
  assumes "charts_wf s"
  shows "charts_wf (renderCharts d s)"
proof -
  note f = renderCharts_instants_live [OF assms]
  have c: "case comparisonChart s of None \<Rightarrow> True | Some h \<Rightarrow> h < next_chart s"
    using assms by (auto simp: charts_wf_def split: option.splits)
  have "ids_ok (renderCharts d s)" using f(5) by (simp add: renderCharts_def)
  moreover have "slot_ok PriceCanvas (priceChart (renderCharts d s)) (renderCharts d s)"
    using f(4) f(7) by (simp add: renderCharts_def slot_ok_def)
  moreover have "slot_ok ReturnsCanvas (returnsChart (renderCharts d s)) (renderCharts d s)"
    using f(4) f(8) by (simp add: renderCharts_def slot_ok_def)
  moreover have "case comparisonChart (renderCharts d s) of
            None \<Rightarrow> True
          | Some h \<Rightarrow> h < next_chart (renderCharts d s)
                      \<and> priceChart (renderCharts d s) \<noteq> Some h
                      \<and> returnsChart (renderCharts d s) \<noteq> Some h"
    using c f(6) f(7) f(8) f(9) by (auto simp: renderCharts_def split: option.splits)
  ultimately show ?thesis by (simp add: charts_wf_def ids_ok_def)
qed

lemma renderCharts_instants_at_most_one:
  assumes "charts_wf s"
  shows "list_all price_and_returns_at_most_one (renderCharts_instants d s)"
proof -
  note f = renderCharts_instants_live [OF assms]
  have "length (live_on ReturnsCanvas s) \<le> 1"
    using assms by (cases "returnsChart s")
      (auto simp: charts_wf_def slot_ok_def dest: arg_cong [where f = length])
  then show ?thesis
    using f(1) f(2) f(3) f(4) by (simp add: renderCharts_instants_def price_and_returns_at_most_one_def at_most_one_live_def Let_def)
qed

lemma renderCharts_one_price_chart:
  assumes "charts_wf s"
  shows "map snd (live_on PriceCanvas (renderCharts d s)) = [price_config d]"
    and "map snd (live_on ReturnsCanvas (renderCharts d s)) = [returns_config d]"
  using renderCharts_instants_live(4) [OF assms] by (simp_all add: renderCharts_def)

lemma renderCharts_last_instant: "renderCharts d s = last (renderCharts_instants d s)"
  by (simp add: renderCharts_def renderCharts_instants_def Let_def)

lemma updateCharts_calls_wf:
  "charts_wf s \<Longrightarrow> charts_wf (updateCharts_calls series s)"
  by (induction series arbitrary: s) (simp_all add: updateCharts_def charts_wf_renderCharts)

lemma updateCharts_calls_snoc:
  "updateCharts_calls (series @ [d]) s = renderCharts d (updateCharts_calls series s)"
  by (induction series arbitrary: s) (simp_all add: updateCharts_def)

lemma updateCharts_trace_at_most_one:
  "charts_wf s \<Longrightarrow> list_all price_and_returns_at_most_one (updateCharts_trace series s)"
  by (induction series arbitrary: s)
     (simp_all add: renderCharts_instants_at_most_one charts_wf_renderCharts)

lemma updateCharts_trace_last:
  "series \<noteq> [] \<Longrightarrow> updateCharts_calls series s = last (updateCharts_trace series s)"
proof (induction series arbitrary: s)
  case Nil
  then show ?case by simp
next
  case (Cons d ds)
  show ?case
  proof (cases "ds = []")
    case True
    then show ?thesis by (simp add: updateCharts_def renderCharts_last_instant)
  next
    case False
    then have "updateCharts_trace ds (renderCharts d s) \<noteq> []"
      by (cases ds) (simp_all add: renderCharts_instants_def Let_def)
    then show ?thesis using Cons.IH [OF False] by (simp add: updateCharts_def)
  qed
qed


section \<open>The two outcomes of a stock-data load\<close>

lemma loadStockData_settled_failed:
  assumes "series_failed r1 \<or> summary_failed r2"
  shows "loadStockData_settled r1 r2 s = loadStockData_catch s"
proof (cases r1)
  case NetworkError
  then show ?thesis by (simp add: loadStockData_settled_def)
next
  case (Response a b1)
  note r1 = this
  show ?thesis
  proof (cases r2)
    case NetworkError
    then show ?thesis using r1 by (simp add: loadStockData_settled_def)
  next
    case (Response b b2)
    note r2 = this
    show ?thesis
    proof (cases b1)
      case NotJson
      then show ?thesis using r1 r2 by (simp add: loadStockData_settled_def)
    next
      case (Json stockData)
      note b1 = this
      show ?thesis
      proof (cases b2)
        case NotJson
        then show ?thesis using r1 r2 b1 by (simp add: loadStockData_settled_def)
      next
        case (Json stockSummary)
        show ?thesis
        proof (cases "summary_symbol stockSummary")
          case None
          then show ?thesis
            using r1 r2 b1 Json by (simp add: loadStockData_settled_def updateStockInfo_def)
        next
          case (Some x)
          then have "series_failed r1"
            using assms r2 Json by (simp add: summary_failed_def)
          then have "stockData = SeriesOther"
            using r1 b1 by (cases stockData) (simp_all add: series_failed_def)
          then show ?thesis
            using r1 r2 b1 Json Some
            by (simp add: loadStockData_settled_def updateStockInfo_def updateCharts_def
                loadStockData_catch_def)
        qed
      qed
    qed
  qed
qed

lemma loadStockData_settled_ok:
  assumes "summary_symbol summary = Some x"
  shows "loadStockData_settled (Response a (Json (SeriesArray points))) (Response b (Json summary)) s =
           updateMetrics summary (renderCharts points (s\<lparr> selectedStockInfo := StockInfo summary \<rparr>))"
  using assms by (simp add: loadStockData_settled_def updateStockInfo_def updateCharts_def)

lemma settled_cases:
  obtains (failed) "series_failed r1 \<or> summary_failed r2"
  | (ok) a b points summary x where "r1 = Response a (Json (SeriesArray points))"
      and "r2 = Response b (Json summary)" and "summary_symbol summary = Some x"
proof (cases "series_failed r1 \<or> summary_failed r2")
  case True
  then show ?thesis by (rule failed)
next
  case False
  then have 1: "\<not> series_failed r1" and 2: "\<not> summary_failed r2" by simp_all
  from 1 obtain a points where r1: "r1 = Response a (Json (SeriesArray points))"
    by (auto simp: series_failed_def split: fetched.splits body.splits series_json.splits)
  from 2 obtain b summary x where r2: "r2 = Response b (Json summary)" "summary_symbol summary = Some x"
    by (auto simp: summary_failed_def split: fetched.splits body.splits)
  from r1 r2 show ?thesis by (rule ok)
qed

section \<open>The chart store in every reachable state\<close>

lemma chart_store_loadStockData: "chart_store (loadStockData symbol s) = chart_store s"
  by (simp add: chart_store_def loadStockData_def Let_def)

lemma chart_store_click_company: "chart_store (click_company i s) = chart_store s"
  by (simp add: click_company_def Let_def chart_store_loadStockData) (simp add: chart_store_def)

lemma chart_store_displayCompanies: "chart_store (displayCompanies companies s) = chart_store s"
  by (simp add: displayCompanies_def Let_def chart_store_click_company) (simp add: chart_store_def)

lemma chart_store_loadCompanies_settled:
  "chart_store (loadCompanies_settled response s) = chart_store s"
proof -
  have "chart_store (updateCompanyStats cs (populateCompareDropdown cs (displayCompanies cs s)))
          = chart_store s" for cs
    using chart_store_displayCompanies [of cs s]
    by (simp add: chart_store_def updateCompanyStats_def populateCompareDropdown_def)
  moreover have "chart_store (loadCompanies_catch s) = chart_store s"
    by (simp add: chart_store_def loadCompanies_catch_def)
  ultimately show ?thesis
    by (simp add: loadCompanies_settled_def
        split: fetched.splits body.splits companies_json.splits)
qed

lemma chart_store_refreshAllData: "chart_store (refreshAllData s) = chart_store s"
  by (simp add: chart_store_def refreshAllData_def loadTopLosers_def loadTopGainers_def
      loadCompanies_def loadStockData_def Let_def split: option.splits)

lemma chart_store_DOMContentLoaded: "chart_store (DOMContentLoaded s) = chart_store s"
  by (simp add: chart_store_def DOMContentLoaded_def loadTopLosers_def loadTopGainers_def
      loadCompanies_def checkAPIStatus_def)

lemma charts_wf_loadStockData_settled:
  assumes "charts_wf s"
  shows "charts_wf (loadStockData_settled r1 r2 s)"
proof (cases r1 r2 rule: settled_cases)
  case failed
  have "chart_store (loadStockData_catch s) = chart_store s"
    by (simp add: chart_store_def loadStockData_catch_def)
  then have "charts_wf (loadStockData_catch s)" using assms by (rule charts_wf_cong)
  then show ?thesis using loadStockData_settled_failed [OF failed] by simp
next
  case (ok a b points summary x)
  let ?s1 = "s\<lparr> selectedStockInfo := StockInfo summary \<rparr>"
  have "chart_store ?s1 = chart_store s" by (simp add: chart_store_def)
  then have "charts_wf ?s1" using assms by (rule charts_wf_cong)
  then have "charts_wf (renderCharts points ?s1)" by (rule charts_wf_renderCharts)
  moreover have "chart_store (updateMetrics summary (renderCharts points ?s1)) =
                   chart_store (renderCharts points ?s1)"
    by (simp add: chart_store_def updateMetrics_def)
  ultimately have "charts_wf (updateMetrics summary (renderCharts points ?s1))"
    using charts_wf_cong by blast
  then show ?thesis using ok loadStockData_settled_ok by simp
qed

lemma charts_wf_destroy_comparison:
  assumes "charts_wf s" and "comparisonChart s = Some h"
  shows "charts_wf (destroy h s)"
proof -
  have wf: "ids_ok s" "slot_ok PriceCanvas (priceChart s) s"
    "slot_ok ReturnsCanvas (returnsChart s) s"
    "h < next_chart s" "priceChart s \<noteq> Some h" "returnsChart s \<noteq> Some h"
    using assms by (simp_all add: charts_wf_def ids_ok_def)
  have keep: "slot_ok cv (handle) (destroy h s)"
    if "slot_ok cv handle s" and "handle \<noteq> Some h" for cv handle
  proof (cases handle)
    case None
    then show ?thesis using that(1) by (simp add: slot_ok_def live_on_destroy)
  next
    case (Some k)
    then have "map fst (live_on cv s) = [k]" using that(1) by (simp add: slot_ok_def)
    then obtain e where e: "live_on cv s = [e]" "fst e = k" by (rule singleton_of_keys)
    then show ?thesis using Some that(2) by (simp add: slot_ok_def live_on_destroy)
  qed
  have "ids_ok (destroy h s)" using wf(1) by (rule ids_ok_destroy)
  moreover have "slot_ok PriceCanvas (priceChart (destroy h s)) (destroy h s)"
    using keep [OF wf(2) wf(5)] by (simp add: destroy_def)
  moreover have "slot_ok ReturnsCanvas (returnsChart (destroy h s)) (destroy h s)"
    using keep [OF wf(3) wf(6)] by (simp add: destroy_def)
  ultimately show ?thesis
    using assms(2) wf(4,5,6) by (simp add: charts_wf_def ids_ok_def destroy_def)
qed

lemma charts_wf_compareStocks_settled:
  assumes "charts_wf s"
  shows "charts_wf (compareStocks_settled r s)"
proof -
  have "chart_store (compareStocks_catch s) = chart_store s"
    by (simp add: chart_store_def compareStocks_catch_def)
  then have c: "charts_wf (compareStocks_catch s)" using assms by (rule charts_wf_cong)
  have d: "charts_wf s'" if "displayComparison x s = Inr s'" for x s'
  proof (cases x)
    case ComparisonOther
    then show ?thesis using that by (simp add: displayComparison_def)
  next
    case (ComparisonObject c)
    let ?s3 = "s\<lparr> correlationValue := Some (correlation c), perfDifference := Some (perfDiff c),
                   comparisonSection := DisplayBlock \<rparr>"
    let ?s4 = "case comparisonChart ?s3 of None \<Rightarrow> ?s3 | Some h \<Rightarrow> destroy h ?s3"
    have "chart_store ?s3 = chart_store s" by (simp add: chart_store_def)
    then have "charts_wf ?s3" using assms by (rule charts_wf_cong)
    then have 4: "charts_wf ?s4"
      using charts_wf_destroy_comparison [of ?s3] by (simp split: option.splits)
    have "chart_store s' = chart_store ?s4"
      using that ComparisonObject by (auto simp: displayComparison_def Let_def chart_store_def)
    then show ?thesis using 4 by (rule charts_wf_cong)
  qed
  show ?thesis
    using c d
    by (auto simp: compareStocks_settled_def split: fetched.splits body.splits sum.splits)
qed

lemma charts_wf_comparisonChart_settled:
  assumes "charts_wf s"
  shows "charts_wf (comparisonChart_settled c r1 r2 s)"
proof -
  have wf: "ids_ok s" "slot_ok PriceCanvas (priceChart s) s"
    "slot_ok ReturnsCanvas (returnsChart s) s"
    using assms by (simp_all add: charts_wf_def ids_ok_def)
  have "chart_store (comparisonChart_catch s) = chart_store s"
    by (simp add: chart_store_def comparisonChart_catch_def)
  then have k: "charts_wf (comparisonChart_catch s)" using assms by (rule charts_wf_cong)
  have n: "charts_wf ((snd (new_Chart (comparison_config c d1 d2) s))
                        \<lparr> comparisonChart := Some (next_chart s) \<rparr>)" (is "charts_wf ?t") for d1 d2
  proof -
    have "ids_ok ?t"
      using ids_ok_new_Chart [OF wf(1), of "comparison_config c d1 d2"] by (simp add: ids_ok_def)
    moreover have "live_on cv ?t = live_on cv (snd (new_Chart (comparison_config c d1 d2) s))" for cv
      by (simp add: live_on_def)
    then have lo: "live_on PriceCanvas ?t = live_on PriceCanvas s"
      "live_on ReturnsCanvas ?t = live_on ReturnsCanvas s"
      by (simp_all add: live_on_new_Chart comparison_config_def)
    have h: "priceChart ?t = priceChart s" "returnsChart ?t = returnsChart s"
      by (simp_all add: new_Chart_def)
    have "slot_ok PriceCanvas (priceChart ?t) ?t" "slot_ok ReturnsCanvas (returnsChart ?t) ?t"
      using wf(2,3) unfolding slot_ok_def lo h by simp_all
    moreover have "priceChart ?t \<noteq> Some (next_chart s)"
      using slot_handle_bound [OF wf(1), of PriceCanvas "next_chart s"] wf(2)
      by (auto simp: new_Chart_def)
    moreover have "returnsChart ?t \<noteq> Some (next_chart s)"
      using slot_handle_bound [OF wf(1), of ReturnsCanvas "next_chart s"] wf(3)
      by (auto simp: new_Chart_def)
    ultimately show ?thesis by (simp add: charts_wf_def ids_ok_def new_Chart_def)
  qed
  show ?thesis
    using k n
    by (auto simp: comparisonChart_settled_def new_Chart_def
        split: fetched.splits body.splits series_json.splits)
qed

lemma charts_wf_resume:
  assumes "resume t r s = Some s'" and "charts_wf s"
  shows "charts_wf s'"
proof (cases t)
  case LoadCompaniesTask
  then show ?thesis
    using assms charts_wf_cong [OF chart_store_loadCompanies_settled, of s]
    by (auto simp: resume_def split: settlement.splits)
next
  case (LoadStockDataTask x y)
  then show ?thesis
    using assms charts_wf_loadStockData_settled
    by (auto simp: resume_def split: settlement.splits)
next
  case (CompareStocksTask x y z)
  then show ?thesis
    using assms charts_wf_compareStocks_settled
    by (auto simp: resume_def split: settlement.splits)
next
  case (ComparisonChartTask c)
  then show ?thesis
    using assms charts_wf_comparisonChart_settled
    by (auto simp: resume_def split: settlement.splits)
qed

lemma charts_wf_step:
  assumes "charts_wf s"
  shows "charts_wf (step e s)"
proof (cases e)
  case (Click_company i)
  then show ?thesis using assms charts_wf_cong [OF chart_store_click_company, of s i]
    by (simp add: step_def)
next
  case (Input_searchCompany x)
  have "chart_store (filterCompanies (s\<lparr> searchCompany := x \<rparr>)) = chart_store s"
    by (simp add: chart_store_def filterCompanies_def Let_def split: companies_panel.splits)
  then have "charts_wf (filterCompanies (s\<lparr> searchCompany := x \<rparr>))"
    using assms by (rule charts_wf_cong)
  then show ?thesis using Input_searchCompany by (simp add: step_def)
next
  case (Change_timePeriod v)
  have "chart_store (timePeriod_change (s\<lparr> timePeriod := v \<rparr>)) = chart_store s"
    by (simp add: chart_store_def timePeriod_change_def loadStockData_def Let_def
        split: option.splits)
  then have "charts_wf (timePeriod_change (s\<lparr> timePeriod := v \<rparr>))"
    using assms by (rule charts_wf_cong)
  then show ?thesis using Change_timePeriod by (simp add: step_def)
next
  case (Change_compareStock v)
  have "chart_store (s\<lparr> compareStock := v \<rparr>) = chart_store s" by (simp add: chart_store_def)
  then have "charts_wf (s\<lparr> compareStock := v \<rparr>)" using assms by (rule charts_wf_cong)
  then show ?thesis using assms Change_compareStock by (simp add: step_def)
next
  case Click_compareBtn
  have "chart_store (compareStocks s) = chart_store s"
    by (simp add: chart_store_def compareStocks_def Let_def split: option.splits)
  then have "charts_wf (compareStocks s)" using assms by (rule charts_wf_cong)
  then show ?thesis using Click_compareBtn by (simp add: step_def)
next
  case Click_refreshData
  then show ?thesis using assms charts_wf_cong [OF chart_store_refreshAllData, of s]
    by (simp add: step_def)
next
  case Interval_elapsed
  then show ?thesis using assms charts_wf_cong [OF chart_store_refreshAllData, of s]
    by (simp add: step_def)
next
  case Click_closeComparison
  have "chart_store (s\<lparr> comparisonSection := DisplayNone \<rparr>) = chart_store s"
    by (simp add: chart_store_def)
  then have "charts_wf (s\<lparr> comparisonSection := DisplayNone \<rparr>)"
    using assms by (rule charts_wf_cong)
  then show ?thesis using Click_closeComparison by (simp add: step_def)
next
  case (Settled i r)
  show ?thesis
  proof (cases "i < length (pending s)")
    case False
    then show ?thesis using assms Settled by (simp add: step_def)
  next
    case True
    let ?s = "s\<lparr> pending := take i (pending s) @ drop (Suc i) (pending s) \<rparr>"
    have "chart_store ?s = chart_store s" by (simp add: chart_store_def)
    then have "charts_wf ?s" using assms by (rule charts_wf_cong)
    then show ?thesis using assms Settled True charts_wf_resume [of "pending s ! i" r ?s]
      by (auto simp: step_def split: option.splits)
  qed
qed

lemma charts_wf_run: "charts_wf s \<Longrightarrow> charts_wf (run es s)"
  unfolding run_def by (induction es arbitrary: s) (simp_all add: charts_wf_step)

lemma charts_wf_reachable: "charts_wf (run es (DOMContentLoaded (initial period)))"
proof -
  have "charts_wf (DOMContentLoaded (initial period))"
    using chart_store_DOMContentLoaded charts_wf_initial by (rule charts_wf_cong)
  then show ?thesis by (rule charts_wf_run)
qed

text \<open>
  The price and returns canvases. Take any state the page can reach and call
  \<^verbatim>\<open>updateCharts\<close> \<open>N\<close> times in a row, \<open>N\<close> at least 1, each time with a series.
  Afterwards exactly one live chart is on the price canvas, the one rendered from the
  last series. At every instant between the statements of these calls, each of the
  price and returns canvases carries at most one live chart: there the old chart is
  destroyed directly before the new one is constructed.
\<close>

lemma updateCharts_one_live_chart:
  fixes series :: "stock_point list list" and es :: "event list" and period :: string
  assumes "1 \<le> N" and "length series = N"
  defines "s0 \<equiv> run es (DOMContentLoaded (initial period))"
  shows "length (live_on PriceCanvas (updateCharts_calls series s0)) = 1 \<and>
         map snd (live_on PriceCanvas (updateCharts_calls series s0)) = [price_config (last series)] \<and>
         list_all price_and_returns_at_most_one (updateCharts_trace series s0) \<and>
         updateCharts_calls series s0 = last (updateCharts_trace series s0)"
proof -
  have wf: "charts_wf s0" unfolding s0_def by (rule charts_wf_reachable)
  have ne: "series \<noteq> []" using assms(1,2) by auto
  then have eq: "updateCharts_calls series s0 =
                  renderCharts (last series) (updateCharts_calls (butlast series) s0)"
    using updateCharts_calls_snoc [of "butlast series" "last series" s0] by simp
  have "charts_wf (updateCharts_calls (butlast series) s0)"
    using wf by (rule updateCharts_calls_wf)
  then have one: "map snd (live_on PriceCanvas (updateCharts_calls series s0)) =
                    [price_config (last series)]"
    unfolding eq by (rule renderCharts_one_price_chart)
  then have "length (live_on PriceCanvas (updateCharts_calls series s0)) = 1"
    by (auto dest: arg_cong [where f = length])
  moreover have "list_all price_and_returns_at_most_one (updateCharts_trace series s0)"
    using wf by (rule updateCharts_trace_at_most_one)
  moreover have "updateCharts_calls series s0 = last (updateCharts_trace series s0)"
    using ne by (rule updateCharts_trace_last)
  ultimately show ?thesis using one by blast
qed

lemma updateCharts_one_live_chart_example:
  "(1::nat) \<le> 2 \<and> length [series_of 100, series_of 50] = 2 \<and>
   length (live_on PriceCanvas
     (updateCharts_calls [series_of 100, series_of 50] (run [] (DOMContentLoaded (initial ''30''))))) = 1 \<and>
   live_charts (updateCharts_calls [series_of 100, series_of 50] (DOMContentLoaded (initial ''30''))) =
     [(2, price_config (series_of 50)), (3, returns_config (series_of 50))]"
proof -
  have a: "(1::nat) \<le> 2" by simp
  have b: "length [series_of 100, series_of 50] = 2" by simp
  have c: "live_charts (updateCharts_calls [series_of 100, series_of 50] (DOMContentLoaded (initial ''30''))) =
     [(2, price_config (series_of 50)), (3, returns_config (series_of 50))]"
    by (simp add: updateCharts_def renderCharts_def create_returnsChart_def
        destroy_returnsChart_def create_priceChart_def destroy_priceChart_def new_Chart_def
        destroy_def DOMContentLoaded_def loadTopLosers_def loadTopGainers_def loadCompanies_def
        checkAPIStatus_def initial_def)
  show ?thesis
    using updateCharts_one_live_chart [OF a b, of "[]" "''30''", THEN conjunct1] c by simp
qed


section \<open>Stock-data load: the join of the two requests\<close>

lemmas ev_defs = loaded_def run_def step_def DOMContentLoaded_def initial_def loadTopLosers_def
  loadTopGainers_def loadCompanies_def checkAPIStatus_def resume_def loadCompanies_settled_def
  updateCompanyStats_def populateCompareDropdown_def displayCompanies_def click_company_def
  company_items_def loadStockData_def tcs_def infy_def company_element_def Let_def
  loadStockData_settled_def loadStockData_catch_def updateStockInfo_def updateCharts_def
  updateMetrics_def renderCharts_def create_returnsChart_def destroy_returnsChart_def
  create_priceChart_def destroy_priceChart_def new_Chart_def destroy_def

lemma loaded_eq: "pending loaded = [LoadStockDataTask ''TCS.NS'' ''30'']"
  "live_charts loaded = []" "selectedStockInfo loaded = InfoInitial"
  "currentStock loaded = Some ''TCS.NS''"
  by (simp_all add: ev_defs)

lemma step_Settled_stock:
  assumes "i < length (pending s)" and "pending s ! i = LoadStockDataTask symbol days"
  shows "step (Settled i (StockDataSettled r1 r2)) s =
           loadStockData_settled r1 r2
             (s\<lparr> pending := take i (pending s) @ drop (Suc i) (pending s) \<rparr>)"
  using assms by (simp add: step_def resume_def)

lemma catch_keeps:
  "chart_store (loadStockData_catch s) = chart_store s"
  "metrics (loadStockData_catch s) = metrics s"
  "selectedStockInfo (loadStockData_catch s) = LoadFailed"
  "currentStock (loadStockData_catch s) = currentStock s"
  by (simp_all add: chart_store_def loadStockData_catch_def)

lemma rendered_view:
  fixes s :: dashboard and summary :: stock_summary and points :: "stock_point list"
  assumes "charts_wf s"
  defines "s' \<equiv> updateMetrics summary (renderCharts points (s\<lparr> selectedStockInfo := StockInfo summary \<rparr>))"
  shows "selectedStockInfo s' = StockInfo summary"
    and "map snd (live_on PriceCanvas s') = [price_config points]"
    and "map snd (live_on ReturnsCanvas s') = [returns_config points]"
    and "metrics s' = metrics (updateMetrics summary s)"
    and "charts_wf s'"
    and "currentStock s' = currentStock s"
    and "pending s' = pending s"
proof -
  let ?s1 = "s\<lparr> selectedStockInfo := StockInfo summary \<rparr>"
  have "chart_store ?s1 = chart_store s" by (simp add: chart_store_def)
  then have wf1: "charts_wf ?s1" using assms(1) by (rule charts_wf_cong)
  have lo: "live_on cv s' = live_on cv (renderCharts points ?s1)" for cv
    by (simp add: s'_def live_on_def updateMetrics_def)
  show "map snd (live_on PriceCanvas s') = [price_config points]"
    "map snd (live_on ReturnsCanvas s') = [returns_config points]"
    unfolding lo using renderCharts_one_price_chart [OF wf1] by simp_all
  have untouched: "selectedStockInfo (renderCharts points t) = selectedStockInfo t"
    "pending (renderCharts points t) = pending t" for t
    by (simp_all add: renderCharts_def create_returnsChart_def destroy_returnsChart_def
        create_priceChart_def destroy_priceChart_def new_Chart_def destroy_def
        split: option.splits)
  show "selectedStockInfo s' = StockInfo summary"
    by (simp add: s'_def updateMetrics_def untouched)
  show "metrics s' = metrics (updateMetrics summary s)"
    by (simp add: s'_def updateMetrics_def)
  show "currentStock s' = currentStock s"
    by (simp add: s'_def updateMetrics_def currentStock_renderCharts)
  show "pending s' = pending s"
    by (simp add: s'_def updateMetrics_def untouched)
  have "chart_store s' = chart_store (renderCharts points ?s1)"
    by (simp add: s'_def chart_store_def updateMetrics_def)
  then show "charts_wf s'" using charts_wf_renderCharts [OF wf1] by (rule charts_wf_cong)
qed

text \<open>
  The claim that the charts are still rendered when only the summary request fails does
  not hold: with the series delivered and the summary answered by status 500 (a body
  that is not JSON, or an error object), no chart is constructed and the detail panel
  shows the load error.
\<close>

theorem partial_failure_counterexample:
  "live_charts (step summary_fails loaded) = [] \<and>
   selectedStockInfo (step summary_fails loaded) = LoadFailed \<and>
   live_charts (step summary_fails_json loaded) = [] \<and>
   selectedStockInfo (step summary_fails_json loaded) = LoadFailed"
  by (simp add: summary_fails_def summary_fails_json_def error_object_def ev_defs)

text \<open>
  C1, as amended. \<^verbatim>\<open>loadStockData\<close> issues the series and the summary request together
  and joins them by \<^verbatim>\<open>Promise.all\<close> inside one \<^verbatim>\<open>try\<close>: the render step runs only if
  both succeed. If either request fails (rejected, not JSON, or JSON of the wrong
  shape) nothing is rendered from the other one: the chart store and the metrics stay
  as they were and the detail panel shows the load error. If both succeed, the detail
  panel, both charts and the metrics are rendered from them.
\<close>

theorem loadStockData_all_succeed_join:
  fixes s t :: dashboard and dataResponse :: "series_json fetched" and summaryResponse :: "stock_summary fetched"
  assumes "charts_wf s" and "i < length (pending s)"
    and "pending s ! i = LoadStockDataTask symbol days"
  defines "s' \<equiv> step (Settled i (StockDataSettled dataResponse summaryResponse)) s"
  shows "requests (loadStockData symbol t) =
           requests t @ [GetData symbol (PeriodValue (timePeriod t)), GetSummary symbol] \<and>
         pending (loadStockData symbol t) = pending t @ [LoadStockDataTask symbol (timePeriod t)] \<and>
         (series_failed dataResponse \<or> summary_failed summaryResponse \<longrightarrow>
            selectedStockInfo s' = LoadFailed \<and> chart_store s' = chart_store s \<and>
            metrics s' = metrics s) \<and>
         (dataResponse = Response a (Json (SeriesArray points)) \<and> summaryResponse = Response b (Json summary) \<and>
          summary_symbol summary \<noteq> None \<longrightarrow>
            selectedStockInfo s' = StockInfo summary \<and>
            map snd (live_on PriceCanvas s') = [price_config points] \<and>
            map snd (live_on ReturnsCanvas s') = [returns_config points] \<and>
            metrics s' = metrics (updateMetrics summary s))"
proof -
  let ?s = "s\<lparr> pending := take i (pending s) @ drop (Suc i) (pending s) \<rparr>"
  have s': "s' = loadStockData_settled dataResponse summaryResponse ?s"
    unfolding s'_def using assms(2,3) by (rule step_Settled_stock)
  have "chart_store ?s = chart_store s" by (simp add: chart_store_def)
  then have wf: "charts_wf ?s" using assms(1) by (rule charts_wf_cong)
  have issue: "requests (loadStockData symbol t) =
           requests t @ [GetData symbol (PeriodValue (timePeriod t)), GetSummary symbol]"
    "pending (loadStockData symbol t) = pending t @ [LoadStockDataTask symbol (timePeriod t)]"
    by (simp_all add: loadStockData_def Let_def)
  have failed: "selectedStockInfo s' = LoadFailed \<and> chart_store s' = chart_store s \<and>
            metrics s' = metrics s" if "series_failed dataResponse \<or> summary_failed summaryResponse"
    unfolding s' loadStockData_settled_failed [OF that]
    by (simp add: catch_keeps) (simp add: chart_store_def)
  have ok: "selectedStockInfo s' = StockInfo summary \<and>
            map snd (live_on PriceCanvas s') = [price_config points] \<and>
            map snd (live_on ReturnsCanvas s') = [returns_config points] \<and>
            metrics s' = metrics (updateMetrics summary s)"
    if h: "dataResponse = Response a (Json (SeriesArray points))" "summaryResponse = Response b (Json summary)"
      "summary_symbol summary \<noteq> None"
  proof -
    obtain x where x: "summary_symbol summary = Some x" using h(3) by auto
    have "s' = updateMetrics summary (renderCharts points (?s\<lparr> selectedStockInfo := StockInfo summary \<rparr>))"
      unfolding s' h(1,2) using x by (rule loadStockData_settled_ok)
    then show ?thesis
      using rendered_view(1-4) [OF wf, of summary points] by (simp add: updateMetrics_def)
  qed
  from issue failed ok show ?thesis by blast
qed


theorem loadStockData_all_succeed_join_witness:
  "charts_wf loaded \<and> pending loaded ! 0 = LoadStockDataTask ''TCS.NS'' ''30'' \<and>
   summary_failed (Response 500 NotJson) \<and>
   selectedStockInfo (step summary_fails loaded) = LoadFailed \<and>
   chart_store (step summary_fails loaded) = chart_store loaded \<and>
   selectedStockInfo (step tcs_arrives loaded) = StockInfo (summary_of ''TCS.NS'' 100) \<and>
   map snd (live_on PriceCanvas (step tcs_arrives loaded)) = [price_config (series_of 100)]"
proof -
  have wf: "charts_wf loaded" unfolding loaded_def by (rule charts_wf_reachable)
  have i: "0 < length (pending loaded)" by (simp add: loaded_eq)
  have p: "pending loaded ! 0 = LoadStockDataTask ''TCS.NS'' ''30''" by (simp add: loaded_eq)
  have f: "summary_failed (Response 500 NotJson)" by (simp add: summary_failed_def)
  have n: "summary_symbol (summary_of ''TCS.NS'' 100) \<noteq> None" by (simp add: summary_of_def)
  show ?thesis
    using loadStockData_all_succeed_join [OF wf i p,
        where dataResponse = "Response 200 (Json (SeriesArray (series_of 100)))"
          and summaryResponse = "Response 500 NotJson"]
      loadStockData_all_succeed_join [OF wf i p,
        where dataResponse = "Response 200 (Json (SeriesArray (series_of 100)))"
          and summaryResponse = "Response 200 (Json (summary_of ''TCS.NS'' 100))"
          and a = 200 and points = "series_of 100" and b = 200
          and summary = "summary_of ''TCS.NS'' 100"]
      wf p f n
    by (simp add: summary_fails_def tcs_arrives_def)
qed

section \<open>Stock-data load: answers that arrive late\<close>

lemma step_stock_ok:
  fixes s :: dashboard and a b :: nat and points :: "stock_point list" and summary :: stock_summary
  assumes "charts_wf s" and "i < length (pending s)"
    and "pending s ! i = LoadStockDataTask symbol days"
    and "summary_symbol summary \<noteq> None"
  defines "s' \<equiv> step (Settled i (StockDataSettled (Response a (Json (SeriesArray points)))
                                                  (Response b (Json summary)))) s"
  shows "selectedStockInfo s' = StockInfo summary"
    and "map snd (live_on PriceCanvas s') = [price_config points]"
    and "map snd (live_on ReturnsCanvas s') = [returns_config points]"
    and "metrics s' = metrics (updateMetrics summary s)"
    and "charts_wf s'"
    and "currentStock s' = currentStock s"
    and "pending s' = take i (pending s) @ drop (Suc i) (pending s)"
proof -
  let ?s = "s\<lparr> pending := take i (pending s) @ drop (Suc i) (pending s) \<rparr>"
  obtain x where x: "summary_symbol summary = Some x" using assms(4) by auto
  have "chart_store ?s = chart_store s" by (simp add: chart_store_def)
  then have wf: "charts_wf ?s" using assms(1) by (rule charts_wf_cong)
  have s': "s' = updateMetrics summary (renderCharts points (?s\<lparr> selectedStockInfo := StockInfo summary \<rparr>))"
    unfolding s'_def step_Settled_stock [OF assms(2,3)] using x by (rule loadStockData_settled_ok)
  note v = rendered_view [OF wf, of summary points]
  show "selectedStockInfo s' = StockInfo summary" unfolding s' by (rule v(1))
  show "map snd (live_on PriceCanvas s') = [price_config points]" unfolding s' by (rule v(2))
  show "map snd (live_on ReturnsCanvas s') = [returns_config points]" unfolding s' by (rule v(3))
  show "metrics s' = metrics (updateMetrics summary s)"
    unfolding s' using v(4) by (simp add: updateMetrics_def)
  show "charts_wf s'" unfolding s' by (rule v(5))
  show "currentStock s' = currentStock s" unfolding s' using v(6) by simp
  show "pending s' = take i (pending s) @ drop (Suc i) (pending s)" unfolding s' using v(7) by simp
qed

text \<open>
  The claim that a late answer for an earlier selection is discarded does not hold:
  \<open>TCS.NS\<close> is selected, then \<open>INFY.NS\<close>; the answer for \<open>INFY.NS\<close> arrives first and
  the one for \<open>TCS.NS\<close> after it. The page ends with \<open>INFY.NS\<close> as current stock
  and the panel and charts of \<open>TCS.NS\<close>.
\<close>

theorem stale_response_counterexample:
  "currentStock stale_run = Some ''INFY.NS'' \<and>
   selectedStockInfo stale_run = StockInfo (summary_of ''TCS.NS'' 100) \<and>
   selectedStockInfo stale_run \<noteq> StockInfo (summary_of ''INFY.NS'' 50) \<and>
   map snd (live_charts stale_run) = [price_config (series_of 100), returns_config (series_of 100)]"
  by (simp add: stale_run_def infy_arrives_def tcs_arrives_def summary_of_def ev_defs)

text \<open>
  C2, as amended. The body of \<^verbatim>\<open>loadStockData\<close> never compares the symbol it was called
  with against \<open>currentStock\<close>. When \<open>A\<close> is selected, then \<open>B\<close>, and the answer for
  \<open>A\<close> arrives after the one for \<open>B\<close>, the answer for \<open>A\<close> is committed like any
  other: the view shows the data of \<open>B\<close> first and ends with the detail panel, charts
  and metrics of \<open>A\<close>, while \<open>currentStock\<close> stays \<open>B\<close>.
\<close>

theorem stale_response_committed:
  fixes s :: dashboard and A B :: string and dataA dataB :: "stock_point list"
    and summaryA summaryB :: stock_summary and sa sb ta tb :: nat
  assumes "charts_wf s"
    and "summary_symbol summaryA \<noteq> None" and "summary_symbol summaryB \<noteq> None"
  defines "n \<equiv> length (pending s)"
  defines "s1 \<equiv> loadStockData B (loadStockData A s)"
  defines "s2 \<equiv> step (Settled (Suc n) (StockDataSettled (Response sb (Json (SeriesArray dataB)))
                                                      (Response tb (Json summaryB)))) s1"
  defines "s3 \<equiv> step (Settled n (StockDataSettled (Response sa (Json (SeriesArray dataA)))
                                                (Response ta (Json summaryA)))) s2"
  shows "currentStock s3 = Some B \<and>
         selectedStockInfo s2 = StockInfo summaryB \<and>
         selectedStockInfo s3 = StockInfo summaryA \<and>
         map snd (live_on PriceCanvas s3) = [price_config dataA] \<and>
         map snd (live_on ReturnsCanvas s3) = [returns_config dataA] \<and>
         metrics s3 = metrics (updateMetrics summaryA s)"
proof -
  have p1: "pending s1 = pending s @
              [LoadStockDataTask A (timePeriod s), LoadStockDataTask B (timePeriod s)]"
    and c1: "currentStock s1 = Some B"
    and st1: "chart_store s1 = chart_store s"
    and m1: "metrics s1 = metrics s"
    by (simp_all add: s1_def loadStockData_def Let_def chart_store_def)
  have wf1: "charts_wf s1" using st1 assms(1) by (rule charts_wf_cong)
  have i1: "Suc n < length (pending s1)" by (simp add: p1 n_def)
  have t1: "pending s1 ! Suc n = LoadStockDataTask B (timePeriod s)"
    by (simp add: p1 n_def nth_append)
  note f2 = step_stock_ok [OF wf1 i1 t1 assms(3), where a = sb and points = dataB and b = tb, folded s2_def]
  have p2: "pending s2 = pending s @ [LoadStockDataTask A (timePeriod s)]"
    using f2(7) by (simp add: p1 n_def)
  have i2: "n < length (pending s2)" by (simp add: p2 n_def)
  have t2: "pending s2 ! n = LoadStockDataTask A (timePeriod s)"
    by (simp add: p2 n_def nth_append)
  note f3 = step_stock_ok [OF f2(5) i2 t2 assms(2), where a = sa and points = dataA and b = ta, folded s3_def]
  have "currentStock s3 = Some B" using f3(6) f2(6) c1 by simp
  moreover have "metrics s3 = metrics (updateMetrics summaryA s)"
    using f3(4) by (simp add: updateMetrics_def)
  ultimately show ?thesis using f2(1) f3(1) f3(2) f3(3) by simp
qed

theorem stale_response_committed_witness:
  "charts_wf (initial ''30'') \<and>
   summary_symbol (summary_of ''A'' 100) \<noteq> None \<and> summary_symbol (summary_of ''B'' 50) \<noteq> None \<and>
   currentStock
     (run [Settled 1 (StockDataSettled (Response 200 (Json (SeriesArray (series_of 50))))
                                       (Response 200 (Json (summary_of ''B'' 50)))),
           Settled 0 (StockDataSettled (Response 200 (Json (SeriesArray (series_of 100))))
                                       (Response 200 (Json (summary_of ''A'' 100))))]
        (loadStockData ''B'' (loadStockData ''A'' (initial ''30'')))) = Some ''B'' \<and>
   selectedStockInfo
     (run [Settled 1 (StockDataSettled (Response 200 (Json (SeriesArray (series_of 50))))
                                       (Response 200 (Json (summary_of ''B'' 50)))),
           Settled 0 (StockDataSettled (Response 200 (Json (SeriesArray (series_of 100))))
                                       (Response 200 (Json (summary_of ''A'' 100))))]
        (loadStockData ''B'' (loadStockData ''A'' (initial ''30'')))) =
     StockInfo (summary_of ''A'' 100)"
proof -
  have wf: "charts_wf (initial ''30'')" by (rule charts_wf_initial)
  have a: "summary_symbol (summary_of ''A'' 100) \<noteq> None" by (simp add: summary_of_def)
  have b: "summary_symbol (summary_of ''B'' 50) \<noteq> None" by (simp add: summary_of_def)
  have n: "length (pending (initial ''30'')) = 0" by (simp add: initial_def)
  show ?thesis
    using stale_response_committed [OF wf a b, where A = "''A''" and B = "''B''"
        and dataA = "series_of 100" and dataB = "series_of 50"
        and sa = 200 and sb = 200 and ta = 200 and tb = 200] wf a b n
    by (simp add: run_def)
qed


section \<open>The comparison canvas\<close>


end
